theory Spec2Isabelle
  imports Main
begin

section \<open>The GCP IP ranges crawler (iyp/crawlers/google/gcp\_ip\_ranges.py)\<close>

text \<open>
  The crawler downloads Google Cloud's published IP ranges, flattens every JSON entry into
  up to two records, collects the distinct prefixes, services and countries, asks the
  graph client for the nodes and submits two lists of links. The embedding follows
  \<open>Crawler.run\<close> phase by phase. Python dictionaries are maps, Python sets are lists
  without repetition (in order of first insertion), every subscript \<open>d[k]\<close> is a
  lookup that can raise \<open>KeyError\<close>, and the calls to \<open>logging\<close> are recorded in
  a list. The prefixes, \<open>service\<close> and \<open>scope\<close> of an entry are strings, as the
  published format has them; \<open>creationTime\<close> is any JSON value, since the code passes it
  to a function that accepts strings only.
\<close>

subsection \<open>Module constants\<close>

definition URL :: string where
  "URL = ''https://www.gstatic.com/ipranges/cloud.json''"

definition ORG :: string where
  "ORG = ''Google''"

definition NAME :: string where
  "NAME = ''google.gcp_ip_ranges''"

text \<open>The dictionary literal \<open>REGION_TO_COUNTRY\<close>, entry by entry, in the source's order.\<close>

definition REGION_TO_COUNTRY_items :: "(string \<times> string) list" where
  "REGION_TO_COUNTRY_items =
    [(''africa-south1'', ''ZA''),
     (''asia-east1'', ''TW''),
     (''asia-east2'', ''HK''),
     (''asia-northeast1'', ''JP''),
     (''asia-northeast2'', ''JP''),
     (''asia-northeast3'', ''KR''),
     (''asia-south1'', ''IN''),
     (''asia-south2'', ''IN''),
     (''asia-southeast1'', ''SG''),
     (''asia-southeast2'', ''ID''),
     (''australia-southeast1'', ''AU''),
     (''australia-southeast2'', ''AU''),
     (''europe-central2'', ''PL''),
     (''europe-north1'', ''FI''),
     (''europe-north2'', ''SE''),
     (''europe-southwest1'', ''ES''),
     (''europe-west1'', ''BE''),
     (''europe-west2'', ''GB''),
     (''europe-west3'', ''DE''),
     (''europe-west4'', ''NL''),
     (''europe-west6'', ''CH''),
     (''europe-west8'', ''IT''),
     (''europe-west9'', ''FR''),
     (''europe-west10'', ''DE''),
     (''europe-west12'', ''IT''),
     (''me-central1'', ''QA''),
     (''me-central2'', ''SA''),
     (''me-west1'', ''IL''),
     (''northamerica-northeast1'', ''CA''),
     (''northamerica-northeast2'', ''CA''),
     (''northamerica-south1'', ''MX''),
     (''us-central1'', ''US''),
     (''us-east1'', ''US''),
     (''us-east4'', ''US''),
     (''us-east5'', ''US''),
     (''us-south1'', ''US''),
     (''us-west1'', ''US''),
     (''us-west2'', ''US''),
     (''us-west3'', ''US''),
     (''us-west4'', ''US''),
     (''southamerica-east1'', ''BR''),
     (''southamerica-west1'', ''CL'')]"

definition REGION_TO_COUNTRY :: "string \<rightharpoonup> string" where
  "REGION_TO_COUNTRY = map_of REGION_TO_COUNTRY_items"

subsection \<open>Dictionaries, sets, errors and the log\<close>

datatype error = KeyError string | TypeError | HTTPError | JSONDecodeError

text \<open>\<open>bnd\<close> sequences two steps: an exception of the first one propagates.\<close>

definition bnd :: "error + 'a \<Rightarrow> ('a \<Rightarrow> error + 'b) \<Rightarrow> error + 'b" where
  "bnd m f = (case m of Inl e \<Rightarrow> Inl e | Inr x \<Rightarrow> f x)"

text \<open>\<open>d[k]\<close>, \<open>k in d\<close> and \<open>d.get(k, default)\<close>.\<close>

definition getitem :: "(string \<rightharpoonup> 'v) \<Rightarrow> string \<Rightarrow> error + 'v" where
  "getitem d k = (case d k of None \<Rightarrow> Inl (KeyError k) | Some v \<Rightarrow> Inr v)"

definition contains :: "(string \<rightharpoonup> 'v) \<Rightarrow> string \<Rightarrow> bool" where
  "contains d k = (d k \<noteq> None)"

definition dict_get :: "(string \<rightharpoonup> 'v) \<Rightarrow> string \<Rightarrow> 'v \<Rightarrow> 'v" where
  "dict_get d k dflt = (case d k of None \<Rightarrow> dflt | Some v \<Rightarrow> v)"

text \<open>\<open>s.add(x)\<close> on a set kept as a list without repetition.\<close>

definition set_add :: "'a \<Rightarrow> 'a list \<Rightarrow> 'a list" where
  "set_add x s = (if x \<in> set s then s else s @ [x])"

datatype level = DEBUG | INFO | WARNING

type_synonym log = "(level \<times> string) list"

text \<open>\<open>str(n)\<close> for the lengths the f-strings print.\<close>

fun str_nat :: "nat \<Rightarrow> string" where
  "str_nat n =
     (if n < 10 then [char_of (48 + n)]
      else str_nat (n div 10) @ [char_of (48 + n mod 10)])"

declare str_nat.simps [simp del]

subsection \<open>The data\<close>

text \<open>
  A JSON entry of the \<open>prefixes\<close> array is a dictionary; the document itself is read at
  two keys only, \<open>creationTime\<close> and \<open>prefixes\<close>, each of which may be absent.
\<close>

type_synonym json_object = "string \<rightharpoonup> string"

datatype json =
  JNull
  | JBool bool
  | JNumber int
  | JString string
  | JArray "json list"
  | JObject "(string \<times> json) list"

record data =
  creationTime :: "json option"
  json_prefixes :: "json_object list option"

record item =
  prefix :: string
  service :: string
  scope :: string
  af :: nat

subsection \<open>Parse prefixes\<close>

text \<open>The body of the first loop: one entry, appended to \<open>items\<close>.\<close>

definition parse_entry :: "json_object \<Rightarrow> item list \<Rightarrow> error + item list" where
  "parse_entry e items =
     bnd (if contains e ''ipv4Prefix''
          then bnd (getitem e ''ipv4Prefix'') (\<lambda>p.
                 Inr (items @ [\<lparr>prefix = p,
                                service = dict_get e ''service'' ''Google Cloud'',
                                scope = dict_get e ''scope'' '''',
                                af = 4\<rparr>]))
          else Inr items) (\<lambda>items1.
       if contains e ''ipv6Prefix''
       then bnd (getitem e ''ipv6Prefix'') (\<lambda>p.
              Inr (items1 @ [\<lparr>prefix = p,
                              service = dict_get e ''service'' ''Google Cloud'',
                              scope = dict_get e ''scope'' '''',
                              af = 6\<rparr>]))
       else Inr items1)"

fun parse_prefixes :: "json_object list \<Rightarrow> item list \<Rightarrow> error + item list" where
  "parse_prefixes [] items = Inr items"
| "parse_prefixes (e # es) items = bnd (parse_entry e items) (parse_prefixes es)"

subsection \<open>The reference and the creation time\<close>

text \<open>
  \<open>self.reference\<close> is the provenance dictionary every link carries. Its values are
  strings and timestamps. \<open>datetime.fromisoformat\<close> belongs to the Python library: it is
  a parameter of the model, \<open>None\<close> standing for the \<open>ValueError\<close> it raises on a
  string it cannot parse.
\<close>

datatype tz = UTC | Offset int

record datetime =
  year :: nat
  month :: nat
  day :: nat
  hour :: nat
  minute :: nat
  second :: nat
  microsecond :: nat
  tzinfo :: "tz option"

datatype ref_value = RNone | RStr string | RTime datetime

type_synonym reference = "string \<rightharpoonup> ref_value"

text \<open>
  \<open>Crawler.__init__\<close>: the reference built by the base class (not part of this file)
  receives the documentation URL.
\<close>

definition Crawler_init :: "reference \<Rightarrow> reference" where
  "Crawler_init base_reference =
     base_reference(''reference_url_info'' \<mapsto>
       RStr ''https://cloud.google.com/compute/docs/faq#find_ip_range'')"

text \<open>
  \<open>datetime.fromisoformat(data['creationTime'])\<close> inside \<open>try\<close> with \<open>except ValueError\<close>: a
  string that does not parse is logged and skipped; a value that is no string raises
  \<open>TypeError\<close>, which the handler does not catch.
\<close>

definition parse_creationTime ::
  "(string \<Rightarrow> datetime option) \<Rightarrow> data \<Rightarrow> reference \<Rightarrow> error + reference \<times> log" where
  "parse_creationTime fromisoformat d ref =
     (case creationTime d of
        None \<Rightarrow> Inr (ref, [])
      | Some (JString s) \<Rightarrow>
          (case fromisoformat s of
             Some dt \<Rightarrow>
               Inr (ref(''reference_time_modification'' \<mapsto> RTime (dt\<lparr>tzinfo := Some UTC\<rparr>)), [])
           | None \<Rightarrow> Inr (ref, [(WARNING, ''Could not parse creationTime: '' @ s)]))
      | Some _ \<Rightarrow> Inl TypeError)"

subsection \<open>Collect unique values\<close>

record unique =
  prefixes :: "string list"
  services :: "string list"
  countries :: "string list"

text \<open>The body of the second loop, on the three sets and the log.\<close>

definition collect_item :: "item \<Rightarrow> unique \<times> log \<Rightarrow> error + unique \<times> log" where
  "collect_item it acc =
     (let u = fst acc; lg = snd acc;
          u1 = u\<lparr>prefixes := set_add (prefix it) (prefixes u),
                 services := set_add (service it) (services u)\<rparr>
      in if contains REGION_TO_COUNTRY (scope it)
         then bnd (getitem REGION_TO_COUNTRY (scope it)) (\<lambda>cc.
                Inr (u1\<lparr>countries := set_add cc (countries u1)\<rparr>, lg))
         else if scope it \<noteq> []
         then Inr (u1, lg @ [(DEBUG, ''Unknown GCP region/scope: '' @ scope it)])
         else Inr (u1, lg))"

fun collect_unique :: "item list \<Rightarrow> unique \<times> log \<Rightarrow> error + unique \<times> log" where
  "collect_unique [] acc = Inr acc"
| "collect_unique (it # its) acc = bnd (collect_item it acc) (collect_unique its)"

subsection \<open>The graph client\<close>

text \<open>
  \<open>self.iyp\<close> is the client of the graph store; its class is not part of this file. The
  model takes its three operations as parameters, acting on a state \<open>'s\<close> of the store.
  \<open>batch_get_nodes_by_single_prop\<close> returns a dictionary from property value to node
  id, kept as an association list so that \<open>values()\<close> can be listed. The operations
  are total: the model covers the runs in which every call to the client returns.
\<close>

record link =
  src_id :: nat
  dst_id :: nat
  props :: "reference list"

record 's iyp_client =
  batch_get_nodes_by_single_prop ::
    "string \<Rightarrow> string \<Rightarrow> string list \<Rightarrow> bool \<Rightarrow> 's \<Rightarrow> (string \<times> nat) list \<times> 's"
  batch_add_node_label :: "nat list \<Rightarrow> string \<Rightarrow> 's \<Rightarrow> 's"
  batch_add_links :: "string \<Rightarrow> link list \<Rightarrow> 's \<Rightarrow> 's"

subsection \<open>Prepare relationships\<close>

text \<open>The body of the third loop, on the two lists of links.\<close>

definition link_item ::
  "(string \<rightharpoonup> nat) \<Rightarrow> (string \<rightharpoonup> nat) \<Rightarrow> (string \<rightharpoonup> nat) \<Rightarrow> reference \<Rightarrow>
   item \<Rightarrow> link list \<times> link list \<Rightarrow> error + link list \<times> link list" where
  "link_item prefix_id tag_id country_id ref it acc =
     (let categorized_links = fst acc; country_links = snd acc
      in if \<not> contains prefix_id (prefix it) then Inr (categorized_links, country_links)
         else
           bnd (getitem prefix_id (prefix it)) (\<lambda>p_id.
           bnd (if contains tag_id (service it)
                then bnd (getitem tag_id (service it)) (\<lambda>t.
                       Inr (categorized_links @ [\<lparr>src_id = p_id, dst_id = t, props = [ref]\<rparr>]))
                else Inr categorized_links) (\<lambda>categorized_links1.
           bnd (if contains REGION_TO_COUNTRY (scope it)
                then bnd (getitem REGION_TO_COUNTRY (scope it)) (\<lambda>cc.
                       if contains country_id cc
                       then bnd (getitem country_id cc) (\<lambda>c.
                              Inr (country_links @ [\<lparr>src_id = p_id, dst_id = c, props = [ref]\<rparr>]))
                       else Inr country_links)
                else Inr country_links) (\<lambda>country_links1.
           Inr (categorized_links1, country_links1)))))"

fun prepare_relationships ::
  "(string \<rightharpoonup> nat) \<Rightarrow> (string \<rightharpoonup> nat) \<Rightarrow> (string \<rightharpoonup> nat) \<Rightarrow> reference \<Rightarrow>
   item list \<Rightarrow> link list \<times> link list \<Rightarrow> error + link list \<times> link list" where
  "prepare_relationships prefix_id tag_id country_id ref [] acc = Inr acc"
| "prepare_relationships prefix_id tag_id country_id ref (it # its) acc =
     bnd (link_item prefix_id tag_id country_id ref it acc)
       (prepare_relationships prefix_id tag_id country_id ref its)"

subsection \<open>The run\<close>

text \<open>
  The crawler object holds the reference and the client's store. A run returns the object
  as it leaves it, the calls to \<open>logging\<close> in order, and the local variables the
  properties are about.
\<close>

record 's crawler =
  reference :: reference
  iyp :: 's

record 's outcome =
  self :: "'s crawler"
  logged :: log
  items :: "item list"
  uniq :: unique
  prefix_id :: "(string \<times> nat) list"
  tag_id :: "(string \<times> nat) list"
  country_id :: "(string \<times> nat) list"
  categorized_links :: "link list"
  country_links :: "link list"

text \<open>
  \<open>resp\<close> is what \<open>requests.get(URL)\<close>, \<open>raise_for_status()\<close> and \<open>resp.json()\<close>
  deliver: the document, or the exception that ends the run.
\<close>

definition run ::
  "(string \<Rightarrow> datetime option) \<Rightarrow> 's iyp_client \<Rightarrow> error + data \<Rightarrow> 's crawler \<Rightarrow>
   error + 's outcome" where
  "run fromisoformat c resp slf =
     bnd resp (\<lambda>d.
     bnd (parse_creationTime fromisoformat d (reference slf)) (\<lambda>tm.
     let ref = fst tm
     in
     bnd (parse_prefixes (case json_prefixes d of None \<Rightarrow> [] | Some es \<Rightarrow> es) []) (\<lambda>its.
     bnd (collect_unique its (\<lparr>prefixes = [], services = [], countries = []\<rparr>, [])) (\<lambda>col.
     let u = fst col;
         g1 = batch_get_nodes_by_single_prop c ''GeoPrefix'' ''prefix'' (prefixes u) False (iyp slf);
         s2 = batch_add_node_label c (map snd (fst g1)) ''Prefix'' (snd g1);
         g3 = batch_get_nodes_by_single_prop c ''Tag'' ''label'' (services u) False s2;
         g4 = batch_get_nodes_by_single_prop c ''Country'' ''country_code'' (countries u) False (snd g3)
     in
     bnd (prepare_relationships (map_of (fst g1)) (map_of (fst g3)) (map_of (fst g4)) ref its ([], []))
       (\<lambda>lks.
     let s5 = batch_add_links c ''CATEGORIZED'' (fst lks) (snd g4);
         s6 = batch_add_links c ''COUNTRY'' (snd lks) s5
     in
     Inr \<lparr>self = \<lparr>reference = ref, iyp = s6\<rparr>,
          logged =
            [(INFO, ''Fetching GCP IP ranges from '' @ URL)] @ snd tm @
            [(INFO, ''Processing '' @ str_nat (length its) @ '' prefixes'')] @ snd col @
            [(INFO, ''Creating '' @ str_nat (length (prefixes u)) @ '' GeoPrefix nodes''),
             (INFO, ''Creating '' @ str_nat (length (fst lks)) @ '' CATEGORIZED relationships''),
             (INFO, ''Creating '' @ str_nat (length (snd lks)) @ '' COUNTRY relationships''),
             (INFO, ''Finished processing GCP IP ranges: '' @ str_nat (length its) @ '' prefixes'')],
          items = its,
          uniq = u,
          prefix_id = fst g1,
          tag_id = fst g3,
          country_id = fst g4,
          categorized_links = fst lks,
          country_links = snd lks\<rparr>)))))"

subsection \<open>A graph store for the client\<close>

text \<open>
  Modelled from the spec: the graph client (class \<open>IYP\<close>, created by \<open>BaseCrawler\<close>) is
  not part of this file. The specification describes it as a batch get-or-create of nodes
  by natural key (a label, a property name and the property's value), the addition of a
  label to nodes, and an idempotent batch upsert of edges that carry the reference. The
  store below does exactly that: a node is found by its natural key or created with the
  next free id; an edge is identified by its type, its source and its destination, and a
  submitted link creates the edge or replaces its properties.
\<close>

record graph =
  node_ids :: "string \<times> string \<times> string \<rightharpoonup> nat"
  node_labels :: "nat \<Rightarrow> string set"
  links :: "string \<times> nat \<times> nat \<rightharpoonup> reference list"
  next_id :: nat

definition empty_graph :: graph where
  "empty_graph = \<lparr>node_ids = Map.empty, node_labels = (\<lambda>i. {}), links = Map.empty, next_id = 0\<rparr>"

text \<open>Modelled from the spec: get-or-create of one node by its natural key.\<close>

definition get_or_create :: "string \<Rightarrow> string \<Rightarrow> string \<Rightarrow> graph \<Rightarrow> nat \<times> graph" where
  "get_or_create label prop v g =
     (case node_ids g (label, prop, v) of
        Some i \<Rightarrow> (i, g)
      | None \<Rightarrow>
          (next_id g,
           g\<lparr>node_ids := (node_ids g)((label, prop, v) \<mapsto> next_id g),
             node_labels := (node_labels g)(next_id g := {label}),
             next_id := Suc (next_id g)\<rparr>))"

text \<open>Modelled from the spec: the batch get-or-create, returning value and node id.\<close>

fun store_get_nodes ::
  "string \<Rightarrow> string \<Rightarrow> string list \<Rightarrow> graph \<Rightarrow> (string \<times> nat) list \<times> graph" where
  "store_get_nodes label prop [] g = ([], g)"
| "store_get_nodes label prop (v # vs) g =
     (let n = get_or_create label prop v g;
          r = store_get_nodes label prop vs (snd n)
      in ((v, fst n) # fst r, snd r))"

text \<open>Modelled from the spec: one more label on the nodes with the given ids.\<close>

definition store_add_node_label :: "nat list \<Rightarrow> string \<Rightarrow> graph \<Rightarrow> graph" where
  "store_add_node_label ids label g =
     g\<lparr>node_labels :=
         (\<lambda>i. if i \<in> set ids then insert label (node_labels g i) else node_labels g i)\<rparr>"

text \<open>Modelled from the spec: an edge is identified by its type, source and destination.\<close>

definition edge_key :: "string \<Rightarrow> link \<Rightarrow> string \<times> nat \<times> nat" where
  "edge_key ty l = (ty, src_id l, dst_id l)"

text \<open>Modelled from the spec: the upsert of one edge, and of the edges of one type.\<close>

definition upsert_link ::
  "string \<Rightarrow> link \<Rightarrow> (string \<times> nat \<times> nat \<rightharpoonup> reference list) \<Rightarrow>
   (string \<times> nat \<times> nat \<rightharpoonup> reference list)" where
  "upsert_link ty l m = m(edge_key ty l \<mapsto> props l)"

definition store_add_links :: "string \<Rightarrow> link list \<Rightarrow> graph \<Rightarrow> graph" where
  "store_add_links ty ls g = g\<lparr>links := fold (upsert_link ty) ls (links g)\<rparr>"

text \<open>Modelled from the spec: the client over this store.\<close>

definition store_client :: "graph iyp_client" where
  "store_client =
     \<lparr>batch_get_nodes_by_single_prop = (\<lambda>label prop vs all g. store_get_nodes label prop vs g),
      batch_add_node_label = store_add_node_label,
      batch_add_links = store_add_links\<rparr>"

text \<open>A store is well formed when every node id in use lies below the next free id.\<close>

definition wf_graph :: "graph \<Rightarrow> bool" where
  "wf_graph g = (ran (node_ids g) \<subseteq> {i. i < next_id g})"

subsection \<open>A client with fixed answers\<close>

text \<open>
  A client whose node dictionaries are given in advance, one per label, and which keeps no
  state. It stands for a store that answers with other keys than the ones it was asked
  for.
\<close>

definition fixed_client :: "(string \<Rightarrow> (string \<times> nat) list) \<Rightarrow> unit iyp_client" where
  "fixed_client answer =
     \<lparr>batch_get_nodes_by_single_prop = (\<lambda>label prop vs all s. (answer label, s)),
      batch_add_node_label = (\<lambda>ids label s. s),
      batch_add_links = (\<lambda>ty ls s. s)\<rparr>"

subsection \<open>What the loops compute\<close>

text \<open>The records of one entry: what \<open>parse_entry\<close> appends.\<close>

definition records_of :: "json_object \<Rightarrow> item list" where
  "records_of e = (case parse_entry e [] of Inl x \<Rightarrow> [] | Inr ys \<Rightarrow> ys)"

text \<open>The country a record resolves to is a key of the client's dictionary.\<close>

definition country_known :: "(string \<rightharpoonup> nat) \<Rightarrow> item \<Rightarrow> bool" where
  "country_known cid it =
     (case REGION_TO_COUNTRY (scope it) of None \<Rightarrow> False | Some cc \<Rightarrow> contains cid cc)"

definition categorized_link :: "(string \<rightharpoonup> nat) \<Rightarrow> (string \<rightharpoonup> nat) \<Rightarrow> reference \<Rightarrow> item \<Rightarrow> link" where
  "categorized_link pid tid ref it =
     \<lparr>src_id = the (pid (prefix it)), dst_id = the (tid (service it)), props = [ref]\<rparr>"

definition country_link :: "(string \<rightharpoonup> nat) \<Rightarrow> (string \<rightharpoonup> nat) \<Rightarrow> reference \<Rightarrow> item \<Rightarrow> link" where
  "country_link pid cid ref it =
     \<lparr>src_id = the (pid (prefix it)),
      dst_id = the (cid (the (REGION_TO_COUNTRY (scope it)))),
      props = [ref]\<rparr>"

text \<open>The message of the debug call for a scope outside the table.\<close>

definition unknown_scope :: "item \<Rightarrow> level \<times> string" where
  "unknown_scope it = (DEBUG, ''Unknown GCP region/scope: '' @ scope it)"

text \<open>The country codes the second loop adds, in order.\<close>

definition new_countries :: "item list \<Rightarrow> string list" where
  "new_countries its = List.map_filter (\<lambda>it. REGION_TO_COUNTRY (scope it)) its"

text \<open>The entries of the document (\<open>data.get('prefixes', [])\<close>) and all their records.\<close>

definition entries :: "data \<Rightarrow> json_object list" where
  "entries d = (case json_prefixes d of None \<Rightarrow> [] | Some es \<Rightarrow> es)"

definition all_records :: "data \<Rightarrow> item list" where
  "all_records d = concat (map records_of (entries d))"

text \<open>
  \<open>creationTime\<close> is absent or a string, and then what the creation-time step returns.
\<close>

definition str_or_absent :: "json option \<Rightarrow> bool" where
  "str_or_absent v = (case v of None \<Rightarrow> True | Some (JString s) \<Rightarrow> True | Some _ \<Rightarrow> False)"

definition creation :: "(string \<Rightarrow> datetime option) \<Rightarrow> data \<Rightarrow> reference \<Rightarrow> reference \<times> log" where
  "creation f d ref = (case parse_creationTime f d ref of Inl e \<Rightarrow> (ref, []) | Inr tm \<Rightarrow> tm)"

text \<open>
  The four calls that create or get the nodes, each on the store the one before left, and
  the values the second and third loop return. \<open>run_outcome\<close> puts them together: it
  is what a run returns once the document has been fetched and the creation-time step has
  returned.
\<close>

definition geoprefix_call :: "'s iyp_client \<Rightarrow> unique \<Rightarrow> 's \<Rightarrow> (string \<times> nat) list \<times> 's" where
  "geoprefix_call c u s = batch_get_nodes_by_single_prop c ''GeoPrefix'' ''prefix'' (prefixes u) False s"

definition label_call :: "'s iyp_client \<Rightarrow> unique \<Rightarrow> 's \<Rightarrow> 's" where
  "label_call c u s =
     batch_add_node_label c (map snd (fst (geoprefix_call c u s))) ''Prefix'' (snd (geoprefix_call c u s))"

definition tag_call :: "'s iyp_client \<Rightarrow> unique \<Rightarrow> 's \<Rightarrow> (string \<times> nat) list \<times> 's" where
  "tag_call c u s = batch_get_nodes_by_single_prop c ''Tag'' ''label'' (services u) False (label_call c u s)"

definition country_call :: "'s iyp_client \<Rightarrow> unique \<Rightarrow> 's \<Rightarrow> (string \<times> nat) list \<times> 's" where
  "country_call c u s =
     batch_get_nodes_by_single_prop c ''Country'' ''country_code'' (countries u) False (snd (tag_call c u s))"

definition uniq_of :: "item list \<Rightarrow> unique" where
  "uniq_of its =
     \<lparr>prefixes = fold set_add (map prefix its) [],
      services = fold set_add (map service its) [],
      countries = fold set_add (new_countries its) []\<rparr>"

definition debug_of :: "item list \<Rightarrow> log" where
  "debug_of its =
     map unknown_scope (filter (\<lambda>it. REGION_TO_COUNTRY (scope it) = None \<and> scope it \<noteq> []) its)"

definition categorized_of ::
  "(string \<rightharpoonup> nat) \<Rightarrow> (string \<rightharpoonup> nat) \<Rightarrow> reference \<Rightarrow> item list \<Rightarrow> link list" where
  "categorized_of pid tid ref its =
     map (categorized_link pid tid ref)
       (filter (\<lambda>it. contains pid (prefix it) \<and> contains tid (service it)) its)"

definition country_of ::
  "(string \<rightharpoonup> nat) \<Rightarrow> (string \<rightharpoonup> nat) \<Rightarrow> reference \<Rightarrow> item list \<Rightarrow> link list" where
  "country_of pid cid ref its =
     map (country_link pid cid ref)
       (filter (\<lambda>it. contains pid (prefix it) \<and> country_known cid it) its)"

definition run_outcome ::
  "(string \<Rightarrow> datetime option) \<Rightarrow> 's iyp_client \<Rightarrow> data \<Rightarrow> 's crawler \<Rightarrow> 's outcome" where
  "run_outcome f c d slf =
     (let tm = creation f d (reference slf);
          its = all_records d;
          u = uniq_of its;
          pid = fst (geoprefix_call c u (iyp slf));
          tid = fst (tag_call c u (iyp slf));
          cid = fst (country_call c u (iyp slf));
          cat = categorized_of (map_of pid) (map_of tid) (fst tm) its;
          cou = country_of (map_of pid) (map_of cid) (fst tm) its
      in \<lparr>self = \<lparr>reference = fst tm,
                   iyp = batch_add_links c ''COUNTRY'' cou
                           (batch_add_links c ''CATEGORIZED'' cat (snd (country_call c u (iyp slf))))\<rparr>,
          logged =
            [(INFO, ''Fetching GCP IP ranges from '' @ URL)] @ snd tm @
            [(INFO, ''Processing '' @ str_nat (length its) @ '' prefixes'')] @ debug_of its @
            [(INFO, ''Creating '' @ str_nat (length (prefixes u)) @ '' GeoPrefix nodes''),
             (INFO, ''Creating '' @ str_nat (length cat) @ '' CATEGORIZED relationships''),
             (INFO, ''Creating '' @ str_nat (length cou) @ '' COUNTRY relationships''),
             (INFO, ''Finished processing GCP IP ranges: '' @ str_nat (length its) @ '' prefixes'')],
          items = its,
          uniq = u,
          prefix_id = pid,
          tag_id = tid,
          country_id = cid,
          categorized_links = cat,
          country_links = cou\<rparr>)"

subsection \<open>Two documents\<close>

text \<open>
  The document of the specification's end-to-end example, run against the store above, and
  a document with a second entry whose prefix the client answers under another key
  (\<open>2001:db8::/32\<close> for \<open>2001:DB8::/32\<close>), whose scope \<open>global\<close> is not a region, and
  with a creation time that is no timestamp.
\<close>

definition example_entry :: json_object where
  "example_entry =
     [''ipv4Prefix'' \<mapsto> ''8.8.8.0/24'', ''service'' \<mapsto> ''Google Cloud'', ''scope'' \<mapsto> ''us-central1'']"

definition example_data :: data where
  "example_data = \<lparr>creationTime = None, json_prefixes = Some [example_entry]\<rparr>"

definition mixed_data :: data where
  "mixed_data =
     \<lparr>creationTime = Some (JString ''yesterday''),
      json_prefixes =
        Some [example_entry, [''ipv6Prefix'' \<mapsto> ''2001:DB8::/32'', ''scope'' \<mapsto> ''global'']]\<rparr>"

text \<open>The example with a \<open>creationTime\<close> that is \<open>null\<close>.\<close>

definition null_data :: data where
  "null_data = \<lparr>creationTime = Some JNull, json_prefixes = Some [example_entry]\<rparr>"

definition mixed_answer :: "string \<Rightarrow> (string \<times> nat) list" where
  "mixed_answer label =
     (if label = ''GeoPrefix'' then [(''8.8.8.0/24'', 0), (''2001:db8::/32'', 1)]
      else if label = ''Tag'' then [(''Google Cloud'', 2)]
      else if label = ''Country'' then [(''US'', 3)]
      else [])"

definition mixed_self :: "unit crawler" where
  "mixed_self = \<lparr>reference = Crawler_init Map.empty, iyp = ()\<rparr>"

definition mixed_outcome :: "unit outcome" where
  "mixed_outcome = run_outcome Map.empty (fixed_client mixed_answer) mixed_data mixed_self"

definition example_record :: item where
  "example_record = \<lparr>prefix = ''8.8.8.0/24'', service = ''Google Cloud'', scope = ''us-central1'', af = 4\<rparr>"

definition global_record :: item where
  "global_record = \<lparr>prefix = ''2001:DB8::/32'', service = ''Google Cloud'', scope = ''global'', af = 6\<rparr>"

definition example_graph :: "reference \<Rightarrow> graph" where
  "example_graph ref =
     \<lparr>node_ids = [(''GeoPrefix'', ''prefix'', ''8.8.8.0/24'') \<mapsto> 0,
                  (''Tag'', ''label'', ''Google Cloud'') \<mapsto> 1,
                  (''Country'', ''country_code'', ''US'') \<mapsto> 2],
      node_labels = (\<lambda>i. if i = 0 then {''GeoPrefix'', ''Prefix''}
                         else if i = 1 then {''Tag''}
                         else if i = 2 then {''Country''} else {}),
      links = [(''CATEGORIZED'', 0, 1) \<mapsto> [ref], (''COUNTRY'', 0, 2) \<mapsto> [ref]],
      next_id = 3\<rparr>"

definition example_self :: "graph crawler" where
  "example_self = \<lparr>reference = Crawler_init Map.empty, iyp = empty_graph\<rparr>"

definition example_result :: "graph outcome" where
  "example_result = run_outcome Map.empty store_client example_data example_self"

text \<open>
  The example once more, on the store its first run left: with the same reference, and with
  the reference of a later fetch.
\<close>

definition rerun_result :: "graph outcome" where
  "rerun_result =
     run_outcome Map.empty store_client example_data
       \<lparr>reference = Crawler_init Map.empty, iyp = iyp (self example_result)\<rparr>"

definition later_reference :: reference where
  "later_reference = Crawler_init [''reference_time_fetch'' \<mapsto> RStr ''later'']"

definition later_result :: "graph outcome" where
  "later_result =
     run_outcome Map.empty store_client example_data
       \<lparr>reference = later_reference, iyp = iyp (self example_result)\<rparr>"

section \<open>Properties of the phases\<close>

subsection \<open>Sequencing and lookups\<close>

lemma bnd_Inr [simp]: "bnd (Inr x) f = f x"
  by (simp add: bnd_def)

lemma bnd_Inl [simp]: "bnd (Inl e) f = Inl e"
  by (simp add: bnd_def)

lemma getitem_Some [simp]: "d k = Some v \<Longrightarrow> getitem d k = Inr v"
  by (simp add: getitem_def)

lemma contains_Some [simp]: "d k = Some v \<Longrightarrow> contains d k"
  by (simp add: contains_def)

lemma contains_None [simp]: "d k = None \<Longrightarrow> \<not> contains d k"
  by (simp add: contains_def)

lemma parse_entry_acc: "parse_entry e acc = Inr (acc @ records_of e)"
  by (cases "e ''ipv4Prefix''"; cases "e ''ipv6Prefix''")
     (simp_all add: parse_entry_def records_of_def)

lemma parse_prefixes_acc: "parse_prefixes es acc = Inr (acc @ concat (map records_of es))"
  by (induction es arbitrary: acc) (simp_all add: parse_entry_acc)

lemma records_of_both:
  "e ''ipv4Prefix'' = Some p4 \<Longrightarrow> e ''ipv6Prefix'' = Some p6 \<Longrightarrow>
   records_of e =
     [\<lparr>prefix = p4, service = dict_get e ''service'' ''Google Cloud'',
       scope = dict_get e ''scope'' '''', af = 4\<rparr>,
      \<lparr>prefix = p6, service = dict_get e ''service'' ''Google Cloud'',
       scope = dict_get e ''scope'' '''', af = 6\<rparr>]"
  by (simp add: parse_entry_def records_of_def)

lemma records_of_v4:
  "e ''ipv4Prefix'' = Some p4 \<Longrightarrow> e ''ipv6Prefix'' = None \<Longrightarrow>
   records_of e =
     [\<lparr>prefix = p4, service = dict_get e ''service'' ''Google Cloud'',
       scope = dict_get e ''scope'' '''', af = 4\<rparr>]"
  by (simp add: parse_entry_def records_of_def)

lemma records_of_v6:
  "e ''ipv4Prefix'' = None \<Longrightarrow> e ''ipv6Prefix'' = Some p6 \<Longrightarrow>
   records_of e =
     [\<lparr>prefix = p6, service = dict_get e ''service'' ''Google Cloud'',
       scope = dict_get e ''scope'' '''', af = 6\<rparr>]"
  by (simp add: parse_entry_def records_of_def)

lemma records_of_none:
  "e ''ipv4Prefix'' = None \<Longrightarrow> e ''ipv6Prefix'' = None \<Longrightarrow> records_of e = []"
  by (simp add: parse_entry_def records_of_def)

lemma records_of_fields:
  "r \<in> set (records_of e) \<Longrightarrow>
   service r = dict_get e ''service'' ''Google Cloud'' \<and> scope r = dict_get e ''scope'' ''''"
  by (cases "e ''ipv4Prefix''"; cases "e ''ipv6Prefix''")
     (auto simp: records_of_both records_of_v4 records_of_v6 records_of_none)

lemma collect_item_eq:
  "collect_item it (u, lg) =
     Inr (\<lparr>prefixes = set_add (prefix it) (prefixes u),
           services = set_add (service it) (services u),
           countries = (case REGION_TO_COUNTRY (scope it) of None \<Rightarrow> countries u
                        | Some cc \<Rightarrow> set_add cc (countries u))\<rparr>,
          lg @ (if REGION_TO_COUNTRY (scope it) = None \<and> scope it \<noteq> [] then [unknown_scope it] else []))"
  by (cases "REGION_TO_COUNTRY (scope it)") (simp_all add: collect_item_def unknown_scope_def)

lemma collect_unique_eq:
  "collect_unique its (u, lg) =
     Inr (\<lparr>prefixes = fold set_add (map prefix its) (prefixes u),
           services = fold set_add (map service its) (services u),
           countries = fold set_add (new_countries its) (countries u)\<rparr>,
          lg @ map unknown_scope
                 (filter (\<lambda>it. REGION_TO_COUNTRY (scope it) = None \<and> scope it \<noteq> []) its))"
proof (induction its arbitrary: u lg)
  case Nil
  then show ?case by (simp add: new_countries_def map_filter_simps)
next
  case (Cons it its)
  show ?case
    by (cases "REGION_TO_COUNTRY (scope it)")
       (simp_all add: collect_item_eq Cons.IH new_countries_def map_filter_simps)
qed

lemma set_fold_set_add: "set (fold set_add xs s) = set s \<union> set xs"
  by (induction xs arbitrary: s) (auto simp: set_add_def)

lemma distinct_fold_set_add: "distinct s \<Longrightarrow> distinct (fold set_add xs s)"
  by (induction xs arbitrary: s) (auto simp: set_add_def)

lemma link_item_eq:
  "link_item P T C ref it (cat, cou) =
     Inr (cat @ (if contains P (prefix it) \<and> contains T (service it)
                 then [categorized_link P T ref it] else []),
          cou @ (if contains P (prefix it) \<and> country_known C it
                 then [country_link P C ref it] else []))"
proof (cases "P (prefix it)")
  case None
  then show ?thesis by (simp add: link_item_def)
next
  case (Some p)
  show ?thesis
  proof (cases "REGION_TO_COUNTRY (scope it)")
    case None
    with Some show ?thesis
      by (cases "T (service it)")
         (simp_all add: link_item_def country_known_def categorized_link_def)
  next
    case (Some cc)
    with \<open>P (prefix it) = Some p\<close> show ?thesis
      by (cases "T (service it)"; cases "C cc")
         (simp_all add: link_item_def country_known_def categorized_link_def country_link_def)
  qed
qed

lemma prepare_relationships_eq:
  "prepare_relationships P T C ref its (cat, cou) =
     Inr (cat @ map (categorized_link P T ref)
                  (filter (\<lambda>it. contains P (prefix it) \<and> contains T (service it)) its),
          cou @ map (country_link P C ref)
                  (filter (\<lambda>it. contains P (prefix it) \<and> country_known C it) its))"
  by (induction its arbitrary: cat cou) (simp_all add: link_item_eq)


subsection \<open>The run, once the document is there\<close>

lemma collect_unique_of: "collect_unique its (\<lparr>prefixes = [], services = [], countries = []\<rparr>, []) =
  Inr (uniq_of its, debug_of its)"
  by (simp add: collect_unique_eq uniq_of_def debug_of_def)

lemma prepare_relationships_of:
  "prepare_relationships pid tid cid ref its ([], []) =
     Inr (categorized_of pid tid ref its, country_of pid cid ref its)"
  by (simp add: prepare_relationships_eq categorized_of_def country_of_def)

lemma parse_prefixes_all: 
  "parse_prefixes (case json_prefixes d of None \<Rightarrow> [] | Some es \<Rightarrow> es) [] = Inr (all_records d)"
  by (simp add: parse_prefixes_acc all_records_def entries_def)

lemma parse_creationTime_ok:
  "str_or_absent (creationTime d) \<Longrightarrow> parse_creationTime f d ref = Inr (creation f d ref)"
  by (auto simp: creation_def parse_creationTime_def str_or_absent_def
        split: option.splits json.splits)

lemma parse_creationTime_TypeError:
  "\<not> str_or_absent (creationTime d) \<Longrightarrow> parse_creationTime f d ref = Inl TypeError"
  by (auto simp: parse_creationTime_def str_or_absent_def split: option.splits json.splits)

lemma run_TypeError: "\<not> str_or_absent (creationTime d) \<Longrightarrow> run f c (Inr d) slf = Inl TypeError"
  by (simp add: run_def parse_creationTime_TypeError)

lemma run_Inr_eq:
  assumes "str_or_absent (creationTime d)"
  shows "run f c (Inr d) slf = Inr (run_outcome f c d slf)"
  unfolding run_def run_outcome_def Let_def parse_creationTime_ok [OF assms] bnd_Inr
    parse_prefixes_all collect_unique_of
    prepare_relationships_of fst_conv snd_conv
    country_call_def tag_call_def label_call_def geoprefix_call_def
  by (rule refl)

lemma run_str: "run f c (Inr d) slf = Inr R \<Longrightarrow> str_or_absent (creationTime d)"
  by (rule ccontr) (simp add: run_TypeError)

lemma run_outcomeI: "run f c (Inr d) slf = Inr R \<Longrightarrow> R = run_outcome f c d slf"
  by (frule run_str) (simp add: run_Inr_eq)

lemma run_total: "str_or_absent (creationTime d) \<Longrightarrow> \<exists>R. run f c (Inr d) slf = Inr R"
  by (simp add: run_Inr_eq)

lemma run_Inl: "run f c (Inl e) slf = Inl e"
  by (simp add: run_def)

lemma run_items: "run f c (Inr d) slf = Inr R \<Longrightarrow> items R = all_records d"
  by (drule run_outcomeI) (simp add: run_outcome_def Let_def)

lemma run_uniq: "run f c (Inr d) slf = Inr R \<Longrightarrow> uniq R = uniq_of (items R)"
  by (drule run_outcomeI) (simp add: run_outcome_def Let_def)

lemma run_reference:
  "run f c (Inr d) slf = Inr R \<Longrightarrow> reference (self R) = fst (creation f d (reference slf))"
  by (drule run_outcomeI) (simp add: run_outcome_def Let_def)

lemma run_prefix_id:
  "run f c (Inr d) slf = Inr R \<Longrightarrow> prefix_id R = fst (geoprefix_call c (uniq R) (iyp slf))"
  by (drule run_outcomeI) (simp add: run_outcome_def Let_def)

lemma run_tag_id:
  "run f c (Inr d) slf = Inr R \<Longrightarrow> tag_id R = fst (tag_call c (uniq R) (iyp slf))"
  by (drule run_outcomeI) (simp add: run_outcome_def Let_def)

lemma run_country_id:
  "run f c (Inr d) slf = Inr R \<Longrightarrow> country_id R = fst (country_call c (uniq R) (iyp slf))"
  by (drule run_outcomeI) (simp add: run_outcome_def Let_def)

lemma run_categorized:
  "run f c (Inr d) slf = Inr R \<Longrightarrow>
   categorized_links R =
     categorized_of (map_of (prefix_id R)) (map_of (tag_id R)) (reference (self R)) (items R)"
  by (drule run_outcomeI) (simp add: run_outcome_def Let_def)

lemma run_country:
  "run f c (Inr d) slf = Inr R \<Longrightarrow>
   country_links R =
     country_of (map_of (prefix_id R)) (map_of (country_id R)) (reference (self R)) (items R)"
  by (drule run_outcomeI) (simp add: run_outcome_def Let_def)

lemma run_iyp:
  "run f c (Inr d) slf = Inr R \<Longrightarrow>
   iyp (self R) =
     batch_add_links c ''COUNTRY'' (country_links R)
       (batch_add_links c ''CATEGORIZED'' (categorized_links R)
          (snd (country_call c (uniq R) (iyp slf))))"
  by (drule run_outcomeI) (simp add: run_outcome_def Let_def)

lemma run_logged:
  "run f c (Inr d) slf = Inr R \<Longrightarrow>
   logged R =
     [(INFO, ''Fetching GCP IP ranges from '' @ URL)] @ snd (creation f d (reference slf)) @
     [(INFO, ''Processing '' @ str_nat (length (items R)) @ '' prefixes'')] @ debug_of (items R) @
     [(INFO, ''Creating '' @ str_nat (length (prefixes (uniq R))) @ '' GeoPrefix nodes''),
      (INFO, ''Creating '' @ str_nat (length (categorized_links R)) @ '' CATEGORIZED relationships''),
      (INFO, ''Creating '' @ str_nat (length (country_links R)) @ '' COUNTRY relationships''),
      (INFO, ''Finished processing GCP IP ranges: '' @ str_nat (length (items R)) @ '' prefixes'')]"
  by (drule run_outcomeI) (simp add: run_outcome_def Let_def)

lemma run_prepare:
  "run f c (Inr d) slf = Inr R \<Longrightarrow>
   prepare_relationships (map_of (prefix_id R)) (map_of (tag_id R)) (map_of (country_id R))
     (reference (self R)) (items R) ([], []) = Inr (categorized_links R, country_links R)"
  by (simp add: prepare_relationships_of run_categorized run_country)

subsection \<open>Set insertion, the table and the two documents\<close>

lemma filter_conj_filter: "filter (\<lambda>x. P x \<and> Q x) (filter P xs) = filter (\<lambda>x. P x \<and> Q x) xs"
  by (induction xs) auto

lemma region_keys_distinct: "distinct (map fst REGION_TO_COUNTRY_items)"
  by (simp add: REGION_TO_COUNTRY_items_def)

lemma region_lookup: "(sc, cc) \<in> set REGION_TO_COUNTRY_items \<Longrightarrow> REGION_TO_COUNTRY sc = Some cc"
  unfolding REGION_TO_COUNTRY_def by (rule map_of_is_SomeI [OF region_keys_distinct])

lemma region_empty: "REGION_TO_COUNTRY [] = None"
  by (simp add: REGION_TO_COUNTRY_def REGION_TO_COUNTRY_items_def)

lemma set_new_countries:
  "set (new_countries its) = {cc. \<exists>it \<in> set its. REGION_TO_COUNTRY (scope it) = Some cc}"
  unfolding new_countries_def by (induction its) (auto split: option.splits)

lemma country_of_known:
  "country_of pid cid ref (filter (\<lambda>it. REGION_TO_COUNTRY (scope it) \<noteq> None) its) =
   country_of pid cid ref its"
  unfolding country_of_def by (induction its) (auto simp: country_known_def)

lemma region_us_central1: "REGION_TO_COUNTRY ''us-central1'' = Some ''US''"
  by (simp add: REGION_TO_COUNTRY_def REGION_TO_COUNTRY_items_def)

lemma region_global: "REGION_TO_COUNTRY ''global'' = None"
  by (simp add: REGION_TO_COUNTRY_def REGION_TO_COUNTRY_items_def)

lemma records_of_example: "records_of example_entry = [example_record]"
  by (simp add: records_of_def parse_entry_def example_entry_def example_record_def dict_get_def)

lemma all_records_example: "all_records example_data = [example_record]"
  by (simp add: all_records_def entries_def example_data_def records_of_example)

lemma all_records_mixed: "all_records mixed_data = [example_record, global_record]"
  by (simp add: all_records_def entries_def mixed_data_def records_of_example)
     (simp add: records_of_def parse_entry_def global_record_def dict_get_def)

lemma example_record_sel [simp]:
  "prefix example_record = ''8.8.8.0/24''" "service example_record = ''Google Cloud''"
  "scope example_record = ''us-central1''" "af example_record = 4"
  by (simp_all add: example_record_def)

lemma global_record_sel [simp]:
  "prefix global_record = ''2001:DB8::/32''" "service global_record = ''Google Cloud''"
  "scope global_record = ''global''" "af global_record = 6"
  by (simp_all add: global_record_def)

lemma uniq_of_example:
  "uniq_of [example_record] =
     \<lparr>prefixes = [''8.8.8.0/24''], services = [''Google Cloud''], countries = [''US'']\<rparr>"
  by (simp add: uniq_of_def set_add_def new_countries_def region_us_central1)

lemma uniq_of_mixed:
  "uniq_of [example_record, global_record] =
     \<lparr>prefixes = [''8.8.8.0/24'', ''2001:DB8::/32''], services = [''Google Cloud''],
      countries = [''US'']\<rparr>"
  by (simp add: uniq_of_def set_add_def new_countries_def region_us_central1 region_global)

lemma str_or_absent_example: "str_or_absent (creationTime example_data)"
  by (simp add: str_or_absent_def example_data_def)

lemma str_or_absent_mixed: "str_or_absent (creationTime mixed_data)"
  by (simp add: str_or_absent_def mixed_data_def)

lemma creation_mixed:
  "creation Map.empty mixed_data ref = (ref, [(WARNING, ''Could not parse creationTime: yesterday'')])"
  by (simp add: creation_def parse_creationTime_def mixed_data_def)

lemma mixed_run: "run Map.empty (fixed_client mixed_answer) (Inr mixed_data) mixed_self = Inr mixed_outcome"
  by (simp add: run_Inr_eq str_or_absent_mixed mixed_outcome_def)

lemma mixed_ids:
  "prefix_id mixed_outcome = [(''8.8.8.0/24'', 0), (''2001:db8::/32'', 1)]"
  "tag_id mixed_outcome = [(''Google Cloud'', 2)]"
  "country_id mixed_outcome = [(''US'', 3)]"
  by (simp_all add: mixed_outcome_def run_outcome_def Let_def geoprefix_call_def tag_call_def
        country_call_def fixed_client_def mixed_answer_def)

lemma mixed_items: "items mixed_outcome = [example_record, global_record]"
  by (simp add: mixed_outcome_def run_outcome_def Let_def all_records_mixed)

lemma mixed_uniq:
  "uniq mixed_outcome =
     \<lparr>prefixes = [''8.8.8.0/24'', ''2001:DB8::/32''], services = [''Google Cloud''],
      countries = [''US'']\<rparr>"
  by (simp add: mixed_outcome_def run_outcome_def Let_def all_records_mixed uniq_of_mixed)

lemma mixed_reference: "reference (self mixed_outcome) = Crawler_init Map.empty"
  by (simp add: mixed_outcome_def run_outcome_def Let_def creation_mixed mixed_self_def)

lemma mixed_categorized:
  "categorized_links mixed_outcome = [\<lparr>src_id = 0, dst_id = 2, props = [Crawler_init Map.empty]\<rparr>]"
  using mixed_ids mixed_items mixed_reference run_categorized [OF mixed_run]
  by (simp add: categorized_of_def categorized_link_def contains_def)

lemma mixed_country:
  "country_links mixed_outcome = [\<lparr>src_id = 0, dst_id = 3, props = [Crawler_init Map.empty]\<rparr>]"
  using mixed_ids mixed_items mixed_reference run_country [OF mixed_run]
  by (simp add: country_of_def country_link_def country_known_def contains_def
        region_us_central1 region_global)

lemma store_client_sel [simp]:
  "batch_get_nodes_by_single_prop store_client = (\<lambda>label prop vs all g. store_get_nodes label prop vs g)"
  "batch_add_node_label store_client = store_add_node_label"
  "batch_add_links store_client = store_add_links"
  by (simp_all add: store_client_def)

lemma example_geoprefix:
  "geoprefix_call store_client
     \<lparr>prefixes = [''8.8.8.0/24''], services = [''Google Cloud''], countries = [''US'']\<rparr> empty_graph =
     ([(''8.8.8.0/24'', 0)],
      \<lparr>node_ids = [(''GeoPrefix'', ''prefix'', ''8.8.8.0/24'') \<mapsto> 0],
       node_labels = (\<lambda>i. {})(0 := {''GeoPrefix''}), links = Map.empty, next_id = 1\<rparr>)"
  by (simp add: geoprefix_call_def get_or_create_def empty_graph_def Let_def)

lemma example_label:
  "label_call store_client
     \<lparr>prefixes = [''8.8.8.0/24''], services = [''Google Cloud''], countries = [''US'']\<rparr> empty_graph =
     \<lparr>node_ids = [(''GeoPrefix'', ''prefix'', ''8.8.8.0/24'') \<mapsto> 0],
      node_labels = (\<lambda>i. if i = 0 then {''GeoPrefix'', ''Prefix''} else {}),
      links = Map.empty, next_id = 1\<rparr>"
  by (auto simp: label_call_def example_geoprefix store_add_node_label_def fun_eq_iff)

lemma example_tag:
  "tag_call store_client
     \<lparr>prefixes = [''8.8.8.0/24''], services = [''Google Cloud''], countries = [''US'']\<rparr> empty_graph =
     ([(''Google Cloud'', 1)],
      \<lparr>node_ids = [(''GeoPrefix'', ''prefix'', ''8.8.8.0/24'') \<mapsto> 0,
                   (''Tag'', ''label'', ''Google Cloud'') \<mapsto> 1],
       node_labels = (\<lambda>i. if i = 0 then {''GeoPrefix'', ''Prefix''}
                          else if i = 1 then {''Tag''} else {}),
       links = Map.empty, next_id = 2\<rparr>)"
  by (auto simp: tag_call_def example_label get_or_create_def Let_def fun_eq_iff)

lemma example_country:
  "country_call store_client
     \<lparr>prefixes = [''8.8.8.0/24''], services = [''Google Cloud''], countries = [''US'']\<rparr> empty_graph =
     ([(''US'', 2)],
      \<lparr>node_ids = [(''GeoPrefix'', ''prefix'', ''8.8.8.0/24'') \<mapsto> 0,
                   (''Tag'', ''label'', ''Google Cloud'') \<mapsto> 1,
                   (''Country'', ''country_code'', ''US'') \<mapsto> 2],
       node_labels = (\<lambda>i. if i = 0 then {''GeoPrefix'', ''Prefix''}
                          else if i = 1 then {''Tag''}
                          else if i = 2 then {''Country''} else {}),
       links = Map.empty, next_id = 3\<rparr>)"
  by (auto simp: country_call_def example_tag get_or_create_def Let_def fun_eq_iff)

lemma example_parse: "creation f example_data ref = (ref, [])"
  by (simp add: creation_def parse_creationTime_def example_data_def)

lemma str_nat_1: "str_nat (Suc 0) = ''1''"
  by code_simp

lemma str_nat_2: "str_nat (Suc (Suc 0)) = ''2''"
  by code_simp

lemma example_outcome:
  "run_outcome f store_client example_data \<lparr>reference = ref, iyp = empty_graph\<rparr> =
     \<lparr>self = \<lparr>reference = ref, iyp = example_graph ref\<rparr>,
      logged =
        [(INFO, ''Fetching GCP IP ranges from https://www.gstatic.com/ipranges/cloud.json''),
         (INFO, ''Processing 1 prefixes''),
         (INFO, ''Creating 1 GeoPrefix nodes''),
         (INFO, ''Creating 1 CATEGORIZED relationships''),
         (INFO, ''Creating 1 COUNTRY relationships''),
         (INFO, ''Finished processing GCP IP ranges: 1 prefixes'')],
      items = [example_record],
      uniq = \<lparr>prefixes = [''8.8.8.0/24''], services = [''Google Cloud''], countries = [''US'']\<rparr>,
      prefix_id = [(''8.8.8.0/24'', 0)],
      tag_id = [(''Google Cloud'', 1)],
      country_id = [(''US'', 2)],
      categorized_links = [\<lparr>src_id = 0, dst_id = 1, props = [ref]\<rparr>],
      country_links = [\<lparr>src_id = 0, dst_id = 2, props = [ref]\<rparr>]\<rparr>"
  unfolding run_outcome_def Let_def all_records_example example_parse uniq_of_example
  by (simp add: example_geoprefix example_tag example_country
        categorized_of_def country_of_def categorized_link_def country_link_def country_known_def
        contains_def region_us_central1 debug_of_def URL_def str_nat_1
        store_add_links_def upsert_link_def edge_key_def example_graph_def)

lemma example_run: "run Map.empty store_client (Inr example_data) example_self = Inr example_result"
  by (simp add: run_Inr_eq str_or_absent_example example_result_def)

lemma example_result_fields:
  "items example_result = [example_record]"
  "prefix_id example_result = [(''8.8.8.0/24'', 0)]"
  "tag_id example_result = [(''Google Cloud'', 1)]"
  "country_id example_result = [(''US'', 2)]"
  "categorized_links example_result = [\<lparr>src_id = 0, dst_id = 1, props = [Crawler_init Map.empty]\<rparr>]"
  "country_links example_result = [\<lparr>src_id = 0, dst_id = 2, props = [Crawler_init Map.empty]\<rparr>]"
  "iyp (self example_result) = example_graph (Crawler_init Map.empty)"
  by (simp_all add: example_result_def example_self_def example_outcome)

lemma mixed_logged:
  "logged mixed_outcome =
     [(INFO, ''Fetching GCP IP ranges from https://www.gstatic.com/ipranges/cloud.json''),
      (WARNING, ''Could not parse creationTime: yesterday''),
      (INFO, ''Processing 2 prefixes''),
      (DEBUG, ''Unknown GCP region/scope: global''),
      (INFO, ''Creating 2 GeoPrefix nodes''),
      (INFO, ''Creating 1 CATEGORIZED relationships''),
      (INFO, ''Creating 1 COUNTRY relationships''),
      (INFO, ''Finished processing GCP IP ranges: 2 prefixes'')]"
  using mixed_items mixed_uniq mixed_categorized mixed_country
  by (simp add: run_logged [OF mixed_run] creation_mixed mixed_self_def
        debug_of_def unknown_scope_def region_us_central1 region_global URL_def str_nat_1 str_nat_2)

subsection \<open>The store: what a batch leaves and finds again\<close>

lemma wf_graph_iff: "wf_graph g \<longleftrightarrow> (\<forall>k i. node_ids g k = Some i \<longrightarrow> i < next_id g)"
  by (auto simp: wf_graph_def ran_def)

lemma get_or_create_props:
  assumes "get_or_create l p v g = (i, g')"
  shows "node_ids g' (l, p, v) = Some i"
    and "node_ids g \<subseteq>\<^sub>m node_ids g'"
    and "next_id g \<le> next_id g'"
    and "\<forall>j < next_id g. node_labels g' j = node_labels g j"
    and "links g' = links g"
    and "wf_graph g \<Longrightarrow> wf_graph g'"
proof -
  show "node_ids g' (l, p, v) = Some i"
    using assms by (auto simp: get_or_create_def split: option.splits)
  show "node_ids g \<subseteq>\<^sub>m node_ids g'"
    using assms by (auto simp: get_or_create_def map_le_def split: option.splits)
  show "next_id g \<le> next_id g'"
    using assms by (auto simp: get_or_create_def split: option.splits)
  show "\<forall>j < next_id g. node_labels g' j = node_labels g j"
    using assms by (auto simp: get_or_create_def split: option.splits)
  show "links g' = links g"
    using assms by (auto simp: get_or_create_def split: option.splits)
  show "wf_graph g'" if "wf_graph g"
    using assms that
    by (fastforce simp: get_or_create_def wf_graph_iff less_Suc_eq split: option.splits if_splits)
qed

lemma store_get_nodes_props:
  assumes "store_get_nodes l p vs g = (ids, g')"
  shows "map fst ids = vs \<and>
    (\<forall>(v, i) \<in> set ids. node_ids g' (l, p, v) = Some i) \<and>
    node_ids g \<subseteq>\<^sub>m node_ids g' \<and>
    next_id g \<le> next_id g' \<and>
    (\<forall>j < next_id g. node_labels g' j = node_labels g j) \<and>
    links g' = links g \<and>
    (wf_graph g \<longrightarrow> wf_graph g')"
  using assms
proof (induction vs arbitrary: g ids g')
  case Nil
  then show ?case by simp
next
  case (Cons v vs)
  obtain i g1 where n: "get_or_create l p v g = (i, g1)"
    by (cases "get_or_create l p v g")
  obtain ids1 g2 where r: "store_get_nodes l p vs g1 = (ids1, g2)"
    by (cases "store_get_nodes l p vs g1")
  from Cons.prems n r have eq: "ids = (v, i) # ids1" "g' = g2"
    by (simp_all add: Let_def)
  note a = get_or_create_props [OF n]
  note b = Cons.IH [OF r]
  have "node_ids g2 (l, p, v) = Some i"
    using a(1) b by (auto simp: map_le_def dom_def)
  moreover have "node_ids g \<subseteq>\<^sub>m node_ids g2"
    using a(2) b by (blast intro: map_le_trans)
  moreover have "next_id g \<le> next_id g2"
    using a(3) b by simp
  moreover have "\<forall>j < next_id g. node_labels g2 j = node_labels g j"
    using a(3,4) b by simp
  moreover have "links g2 = links g"
    using a(5) b by simp
  moreover have "wf_graph g \<longrightarrow> wf_graph g2"
    using a(6) b by blast
  ultimately show ?case
    using b unfolding eq by simp
qed

lemma store_get_nodes_present:
  "map fst ids = vs \<Longrightarrow> \<forall>(v, i) \<in> set ids. node_ids g (l, p, v) = Some i \<Longrightarrow>
   store_get_nodes l p vs g = (ids, g)"
proof (induction vs arbitrary: ids)
  case Nil
  then show ?case by simp
next
  case (Cons v vs)
  then obtain i ids1 where ids: "ids = (v, i) # ids1" and m: "map fst ids1 = vs"
    by (cases ids) auto
  from Cons.prems(2) ids have h: "node_ids g (l, p, v) = Some i"
    and t: "\<forall>(v, i) \<in> set ids1. node_ids g (l, p, v) = Some i"
    by auto
  from h have "get_or_create l p v g = (i, g)"
    by (simp add: get_or_create_def)
  with Cons.IH [OF m t] show ?case
    by (simp add: ids Let_def)
qed

lemma store_get_nodes_again:
  assumes "store_get_nodes l p vs g = (ids, g')" and "node_ids g' \<subseteq>\<^sub>m node_ids h"
  shows "store_get_nodes l p vs h = (ids, h)"
proof (rule store_get_nodes_present)
  from store_get_nodes_props [OF assms(1)] show "map fst ids = vs" by blast
  from store_get_nodes_props [OF assms(1)]
  have "\<forall>(v, i) \<in> set ids. node_ids g' (l, p, v) = Some i" by blast
  with assms(2) show "\<forall>(v, i) \<in> set ids. node_ids h (l, p, v) = Some i"
    by (auto simp: map_le_def dom_def)
qed

lemma store_add_node_label_props:
  "node_ids (store_add_node_label ids l g) = node_ids g"
  "next_id (store_add_node_label ids l g) = next_id g"
  "links (store_add_node_label ids l g) = links g"
  "wf_graph (store_add_node_label ids l g) = wf_graph g"
  "i \<in> set ids \<Longrightarrow> l \<in> node_labels (store_add_node_label ids l g) i"
  by (simp_all add: store_add_node_label_def wf_graph_def)

lemma store_add_node_label_absorb:
  "\<forall>i \<in> set ids. l \<in> node_labels g i \<Longrightarrow> store_add_node_label ids l g = g"
  by (auto simp: store_add_node_label_def fun_eq_iff insert_absorb)

lemma fold_upsert_link:
  "fold (upsert_link ty) ls m = m ++ map_of (rev (map (\<lambda>l. (edge_key ty l, props l)) ls))"
  by (induction ls arbitrary: m) (simp_all add: upsert_link_def)

lemma store_add_links_props:
  "node_ids (store_add_links ty ls g) = node_ids g"
  "next_id (store_add_links ty ls g) = next_id g"
  "node_labels (store_add_links ty ls g) = node_labels g"
  "links (store_add_links ty ls g) = links g ++ map_of (rev (map (\<lambda>l. (edge_key ty l, props l)) ls))"
  "wf_graph (store_add_links ty ls g) = wf_graph g"
  by (simp_all add: store_add_links_def wf_graph_def fold_upsert_link)

lemma dom_upserted:
  "dom (map_of (rev (map (\<lambda>l. (edge_key ty l, props l)) ls))) = edge_key ty ` set ls"
  by (simp add: dom_map_of_conv_image_fst image_image)

lemma upserted_props:
  "map_of (rev (map (\<lambda>l. (edge_key ty l, props l)) ls)) e = Some v \<Longrightarrow> v \<in> props ` set ls"
  by (auto dest!: map_of_SomeD)

lemma map_add_again: "((m ++ a ++ b) ++ a) ++ b = m ++ a ++ b"
  by (auto simp: fun_eq_iff map_add_def split: option.splits)

lemma nodes_again:
  assumes wf: "wf_graph g"
    and h: "node_ids h = node_ids (snd (country_call store_client u g))"
      "node_labels h = node_labels (snd (country_call store_client u g))"
  shows "geoprefix_call store_client u h = (fst (geoprefix_call store_client u g), h) \<and>
    label_call store_client u h = h \<and>
    tag_call store_client u h = (fst (tag_call store_client u g), h) \<and>
    country_call store_client u h = (fst (country_call store_client u g), h) \<and>
    wf_graph (snd (country_call store_client u g))"
proof -
  obtain P g1 where gp: "store_get_nodes ''GeoPrefix'' ''prefix'' (prefixes u) g = (P, g1)"
    by (cases "store_get_nodes ''GeoPrefix'' ''prefix'' (prefixes u) g")
  define g2 where "g2 = store_add_node_label (map snd P) ''Prefix'' g1"
  obtain T g3 where gt: "store_get_nodes ''Tag'' ''label'' (services u) g2 = (T, g3)"
    by (cases "store_get_nodes ''Tag'' ''label'' (services u) g2")
  obtain C g4 where gc: "store_get_nodes ''Country'' ''country_code'' (countries u) g3 = (C, g4)"
    by (cases "store_get_nodes ''Country'' ''country_code'' (countries u) g3")
  have c1: "geoprefix_call store_client u g = (P, g1)"
    by (simp add: geoprefix_call_def gp)
  have c2: "label_call store_client u g = g2"
    by (simp add: label_call_def c1 g2_def)
  have c3: "tag_call store_client u g = (T, g3)"
    by (simp add: tag_call_def c2 gt)
  have c4: "country_call store_client u g = (C, g4)"
    by (simp add: country_call_def c3 gc)
  note a = store_get_nodes_props [OF gp]
  note b = store_get_nodes_props [OF gt]
  note c = store_get_nodes_props [OF gc]
  from h c4 have h4: "node_ids h = node_ids g4" "node_labels h = node_labels g4"
    by simp_all
  have ids2: "node_ids g2 = node_ids g1" and nx2: "next_id g2 = next_id g1"
    by (simp_all add: g2_def store_add_node_label_props)
  have le4: "node_ids g4 \<subseteq>\<^sub>m node_ids h"
    by (simp add: h4)
  have le3: "node_ids g3 \<subseteq>\<^sub>m node_ids h"
    using c h4 by simp
  have le2: "node_ids g2 \<subseteq>\<^sub>m node_ids h"
    using b le3 by (blast intro: map_le_trans)
  have le1: "node_ids g1 \<subseteq>\<^sub>m node_ids h"
    using le2 ids2 by simp
  have r1: "geoprefix_call store_client u h = (P, h)"
    by (simp add: geoprefix_call_def store_get_nodes_again [OF gp le1])
  have wf1: "wf_graph g1"
    using a wf by blast
  have lab: "''Prefix'' \<in> node_labels h i" if "i \<in> set (map snd P)" for i
  proof -
    from that obtain v where "(v, i) \<in> set P" by auto
    with a have "node_ids g1 (''GeoPrefix'', ''prefix'', v) = Some i" by blast
    with wf1 have lt: "i < next_id g2"
      by (simp add: wf_graph_iff nx2)
    have "''Prefix'' \<in> node_labels g2 i"
      unfolding g2_def using that by (rule store_add_node_label_props(5))
    moreover from b lt have "node_labels g3 i = node_labels g2 i" by blast
    moreover from b c lt have "node_labels g4 i = node_labels g3 i" by force
    ultimately show ?thesis by (simp add: h4)
  qed
  have r2: "label_call store_client u h = h"
    by (simp add: label_call_def r1 store_add_node_label_absorb lab)
  have r3: "tag_call store_client u h = (T, h)"
    by (simp add: tag_call_def r2 store_get_nodes_again [OF gt le3])
  have r4: "country_call store_client u h = (C, h)"
    by (simp add: country_call_def r3 store_get_nodes_again [OF gc le4])
  have "wf_graph g2"
    using wf1 by (simp add: g2_def store_add_node_label_props)
  with b c have "wf_graph g4" by blast
  with r1 r2 r3 r4 show ?thesis
    by (simp add: c1 c3 c4)
qed

lemma edge_key_categorized:
  "edge_key ty ` set (categorized_of pid tid r1 its) = edge_key ty ` set (categorized_of pid tid r2 its)"
  by (simp add: categorized_of_def categorized_link_def edge_key_def image_image)

lemma edge_key_country:
  "edge_key ty ` set (country_of pid cid r1 its) = edge_key ty ` set (country_of pid cid r2 its)"
  by (simp add: country_of_def country_link_def edge_key_def image_image)

lemma props_categorized: "props ` set (categorized_of pid tid r its) \<subseteq> {[r]}"
  by (auto simp: categorized_of_def categorized_link_def)

lemma props_country: "props ` set (country_of pid cid r its) \<subseteq> {[r]}"
  by (auto simp: country_of_def country_link_def)

lemma example_any_client:
  "\<exists>R. run f c (Inr example_data) \<lparr>reference = ref, iyp = s\<rparr> = Inr R \<and>
     items R = [example_record] \<and>
     uniq R = \<lparr>prefixes = [''8.8.8.0/24''], services = [''Google Cloud''], countries = [''US'']\<rparr> \<and>
     reference (self R) = ref \<and>
     categorized_links R =
       (if contains (map_of (prefix_id R)) ''8.8.8.0/24'' \<and> contains (map_of (tag_id R)) ''Google Cloud''
        then [\<lparr>src_id = the (map_of (prefix_id R) ''8.8.8.0/24''),
               dst_id = the (map_of (tag_id R) ''Google Cloud''), props = [ref]\<rparr>]
        else []) \<and>
     country_links R =
       (if contains (map_of (prefix_id R)) ''8.8.8.0/24'' \<and> contains (map_of (country_id R)) ''US''
        then [\<lparr>src_id = the (map_of (prefix_id R) ''8.8.8.0/24''),
               dst_id = the (map_of (country_id R) ''US''), props = [ref]\<rparr>]
        else [])"
proof -
  obtain R where R: "run f c (Inr example_data) \<lparr>reference = ref, iyp = s\<rparr> = Inr R"
    using run_total [OF str_or_absent_example] by blast
  have i: "items R = [example_record]"
    by (simp add: run_items [OF R] all_records_example)
  have u: "uniq R = \<lparr>prefixes = [''8.8.8.0/24''], services = [''Google Cloud''], countries = [''US'']\<rparr>"
    by (simp add: run_uniq [OF R] i uniq_of_example)
  have r: "reference (self R) = ref"
    by (simp add: run_reference [OF R] example_parse)
  have a: "categorized_links R =
       (if contains (map_of (prefix_id R)) ''8.8.8.0/24'' \<and> contains (map_of (tag_id R)) ''Google Cloud''
        then [\<lparr>src_id = the (map_of (prefix_id R) ''8.8.8.0/24''),
               dst_id = the (map_of (tag_id R) ''Google Cloud''), props = [ref]\<rparr>]
        else [])"
    by (simp add: run_categorized [OF R] i r categorized_of_def categorized_link_def)
  have b: "country_links R =
       (if contains (map_of (prefix_id R)) ''8.8.8.0/24'' \<and> contains (map_of (country_id R)) ''US''
        then [\<lparr>src_id = the (map_of (prefix_id R) ''8.8.8.0/24''),
               dst_id = the (map_of (country_id R) ''US''), props = [ref]\<rparr>]
        else [])"
    by (simp add: run_country [OF R] i r country_of_def country_link_def country_known_def
          region_us_central1)
  from R i u r a b show ?thesis by blast
qed

section \<open>Extraction\<close>

text \<open>
  C3. An entry with both an \<open>ipv4Prefix\<close> and an \<open>ipv6Prefix\<close> key adds exactly two
  records, the first of address family 4 with the \<open>ipv4Prefix\<close> value and the second of
  address family 6 with the \<open>ipv6Prefix\<close> value; an entry with only one of the two keys
  adds exactly one record. Within the whole array the records of an entry stand between
  those of the entries before it and those of the entries after it.
\<close>

theorem parse_entry_records:
  "(e ''ipv4Prefix'' = Some p4 \<and> e ''ipv6Prefix'' = Some p6 \<longrightarrow>
      parse_entry e acc =
        Inr (acc @ [\<lparr>prefix = p4, service = dict_get e ''service'' ''Google Cloud'',
                     scope = dict_get e ''scope'' '''', af = 4\<rparr>,
                    \<lparr>prefix = p6, service = dict_get e ''service'' ''Google Cloud'',
                     scope = dict_get e ''scope'' '''', af = 6\<rparr>])) \<and>
   (e ''ipv4Prefix'' = Some p4 \<and> e ''ipv6Prefix'' = None \<longrightarrow>
      parse_entry e acc =
        Inr (acc @ [\<lparr>prefix = p4, service = dict_get e ''service'' ''Google Cloud'',
                     scope = dict_get e ''scope'' '''', af = 4\<rparr>])) \<and>
   (e ''ipv4Prefix'' = None \<and> e ''ipv6Prefix'' = Some p6 \<longrightarrow>
      parse_entry e acc =
        Inr (acc @ [\<lparr>prefix = p6, service = dict_get e ''service'' ''Google Cloud'',
                     scope = dict_get e ''scope'' '''', af = 6\<rparr>])) \<and>
   (\<exists>xs ys. parse_prefixes es1 [] = Inr xs \<and> parse_prefixes es2 [] = Inr ys \<and>
      parse_prefixes (es1 @ e # es2) [] = Inr (xs @ records_of e @ ys) \<and>
      parse_entry e acc = Inr (acc @ records_of e))"
  by (simp add: parse_entry_acc parse_prefixes_acc records_of_both records_of_v4 records_of_v6)

theorem parse_entry_records_witness:
  "parse_entry [''ipv4Prefix'' \<mapsto> ''8.8.8.0/24'', ''ipv6Prefix'' \<mapsto> ''2600:1900::/28''] [] =
     Inr [\<lparr>prefix = ''8.8.8.0/24'', service = ''Google Cloud'', scope = '''', af = 4\<rparr>,
          \<lparr>prefix = ''2600:1900::/28'', service = ''Google Cloud'', scope = '''', af = 6\<rparr>] \<and>
   parse_entry [''ipv4Prefix'' \<mapsto> ''8.8.8.0/24'', ''service'' \<mapsto> ''Google''] [] =
     Inr [\<lparr>prefix = ''8.8.8.0/24'', service = ''Google'', scope = '''', af = 4\<rparr>] \<and>
   parse_entry [''ipv6Prefix'' \<mapsto> ''2600:1900::/28'', ''scope'' \<mapsto> ''us-east1''] [] =
     Inr [\<lparr>prefix = ''2600:1900::/28'', service = ''Google Cloud'', scope = ''us-east1'', af = 6\<rparr>]"
  using
    parse_entry_records [of "[''ipv4Prefix'' \<mapsto> ''8.8.8.0/24'', ''ipv6Prefix'' \<mapsto> ''2600:1900::/28'']"
      "''8.8.8.0/24''" "''2600:1900::/28''" "[]"]
    parse_entry_records [of "[''ipv4Prefix'' \<mapsto> ''8.8.8.0/24'', ''service'' \<mapsto> ''Google'']"
      "''8.8.8.0/24''" _ "[]"]
    parse_entry_records [of "[''ipv6Prefix'' \<mapsto> ''2600:1900::/28'', ''scope'' \<mapsto> ''us-east1'']"
      _ "''2600:1900::/28''" "[]"]
  by (simp add: dict_get_def)

text \<open>
  C7. When the \<open>service\<close> key is absent, every record of the entry has the service name
  \<open>Google Cloud\<close>; when the \<open>scope\<close> key is absent, every record of the entry has the
  empty scope.
\<close>

theorem entry_defaults:
  "\<exists>rs. parse_entry e acc = Inr (acc @ rs) \<and>
     (e ''service'' = None \<longrightarrow> (\<forall>r \<in> set rs. service r = ''Google Cloud'')) \<and>
     (e ''scope'' = None \<longrightarrow> (\<forall>r \<in> set rs. scope r = ''''))"
proof (intro exI conjI impI ballI)
  show "parse_entry e acc = Inr (acc @ records_of e)"
    by (rule parse_entry_acc)
next
  fix r
  assume "e ''service'' = None" and "r \<in> set (records_of e)"
  then show "service r = ''Google Cloud''"
    by (simp add: records_of_fields dict_get_def)
next
  fix r
  assume "e ''scope'' = None" and "r \<in> set (records_of e)"
  then show "scope r = ''''"
    by (simp add: records_of_fields dict_get_def)
qed

theorem entry_defaults_witness:
  "\<exists>rs. parse_entry [''ipv4Prefix'' \<mapsto> ''8.8.8.0/24'', ''ipv6Prefix'' \<mapsto> ''2600:1900::/28''] [] = Inr rs \<and>
     length rs = 2 \<and> list_all (\<lambda>r. service r = ''Google Cloud'' \<and> scope r = '''') rs"
proof -
  let ?e = "[''ipv4Prefix'' \<mapsto> ''8.8.8.0/24'', ''ipv6Prefix'' \<mapsto> ''2600:1900::/28'']"
  from entry_defaults [of ?e "[]"]
  obtain rs where rs: "parse_entry ?e [] = Inr rs"
    and d: "\<forall>r \<in> set rs. service r = ''Google Cloud''" "\<forall>r \<in> set rs. scope r = ''''"
    by auto
  have "parse_entry ?e [] =
     Inr [\<lparr>prefix = ''8.8.8.0/24'', service = ''Google Cloud'', scope = '''', af = 4\<rparr>,
          \<lparr>prefix = ''2600:1900::/28'', service = ''Google Cloud'', scope = '''', af = 6\<rparr>]"
    by (simp add: parse_entry_def dict_get_def)
  with rs have "length rs = 2" by auto
  with rs d show ?thesis by (auto simp: list_all_iff)
qed


section \<open>Relationships\<close>

text \<open>
  C1. The number of CATEGORIZED links submitted to the client is at most the number of
  extracted records. It equals the number of records whose prefix is a key of \<open>prefix_id\<close>
  and whose service is a key of \<open>tag_id\<close>; when every extracted prefix is a key of
  \<open>prefix_id\<close>, that is the number of records whose service is a key of \<open>tag_id\<close>. The
  list is the one \<open>batch_add_links\<close> receives for \<open>CATEGORIZED\<close>.
\<close>

theorem categorized_count:
  assumes "run f c (Inr d) slf = Inr R"
  shows "length (categorized_links R) \<le> length (items R) \<and>
    length (categorized_links R) =
      length (filter (\<lambda>it. contains (map_of (prefix_id R)) (prefix it) \<and>
                            contains (map_of (tag_id R)) (service it)) (items R)) \<and>
    ((\<forall>it \<in> set (items R). contains (map_of (prefix_id R)) (prefix it)) \<longrightarrow>
       length (categorized_links R) =
         length (filter (\<lambda>it. contains (map_of (tag_id R)) (service it)) (items R))) \<and>
    iyp (self R) =
      batch_add_links c ''COUNTRY'' (country_links R)
        (batch_add_links c ''CATEGORIZED'' (categorized_links R)
           (snd (country_call c (uniq R) (iyp slf))))"
proof -
  let ?P = "\<lambda>it. contains (map_of (prefix_id R)) (prefix it)"
  let ?T = "\<lambda>it. contains (map_of (tag_id R)) (service it)"
  have len: "length (categorized_links R) = length (filter (\<lambda>it. ?P it \<and> ?T it) (items R))"
    by (simp add: run_categorized [OF assms] categorized_of_def)
  have le: "length (categorized_links R) \<le> length (items R)"
    unfolding len by (rule length_filter_le)
  have all: "length (categorized_links R) = length (filter ?T (items R))"
    if "\<forall>it \<in> set (items R). ?P it"
  proof -
    from that have "filter (\<lambda>it. ?P it \<and> ?T it) (items R) = filter ?T (items R)"
      by (intro filter_cong) auto
    with len show ?thesis by simp
  qed
  from len le all run_iyp [OF assms] show ?thesis by blast
qed

theorem categorized_count_witness:
  "run Map.empty store_client (Inr example_data) example_self = Inr example_result \<and>
   list_all (\<lambda>it. contains (map_of (prefix_id example_result)) (prefix it)) (items example_result) \<and>
   length (categorized_links example_result) \<le> length (items example_result) \<and>
   length (categorized_links example_result) =
     length (filter (\<lambda>it. contains (map_of (tag_id example_result)) (service it)) (items example_result)) \<and>
   length (categorized_links example_result) = 1"
proof -
  have a: "\<forall>it \<in> set (items example_result). contains (map_of (prefix_id example_result)) (prefix it)"
    by (simp add: example_result_fields contains_def)
  from categorized_count [OF example_run] a
  have "length (categorized_links example_result) \<le> length (items example_result)"
    and "length (categorized_links example_result) =
      length (filter (\<lambda>it. contains (map_of (tag_id example_result)) (service it)) (items example_result))"
    by blast+
  with a example_run show ?thesis
    by (simp add: list_all_iff example_result_fields(5))
qed

text \<open>
  As first stated (the count of the records whose service is a key of \<open>tag_id\<close>), C1 fails
  when a prefix is missing from \<open>prefix_id\<close>: two records have a known service, one link
  is submitted.
\<close>

theorem categorized_count_counterexample:
  "run Map.empty (fixed_client mixed_answer) (Inr mixed_data) mixed_self = Inr mixed_outcome \<and>
   length (categorized_links mixed_outcome) = 1 \<and>
   length (filter (\<lambda>it. contains (map_of (tag_id mixed_outcome)) (service it)) (items mixed_outcome)) = 2"
  by (simp add: mixed_run mixed_categorized mixed_items mixed_ids contains_def)

text \<open>
  C2. A record whose prefix is not a key of \<open>prefix_id\<close> leaves both lists of links as
  they are. Once the creation-time step has returned (\<open>creationTime\<close> absent or a string)
  the run returns, the lists it submits are those the loop builds from the records whose
  prefix is a key of \<open>prefix_id\<close>, and the source of every submitted link is a node id of
  \<open>prefix_id\<close>. A fetched document makes the run fail in one case only, a \<open>creationTime\<close>
  that is no string.
\<close>

theorem missing_prefix_no_links:
  "(\<not> contains pid (prefix it) \<longrightarrow> link_item pid tid cid ref it acc = Inr acc) \<and>
   (str_or_absent (creationTime d) \<longrightarrow>
    (\<exists>R. run f c (Inr d) slf = Inr R \<and>
      prepare_relationships (map_of (prefix_id R)) (map_of (tag_id R)) (map_of (country_id R))
        (reference (self R))
        (filter (\<lambda>it. contains (map_of (prefix_id R)) (prefix it)) (items R)) ([], []) =
        Inr (categorized_links R, country_links R) \<and>
      (\<forall>l \<in> set (categorized_links R) \<union> set (country_links R). src_id l \<in> snd ` set (prefix_id R)))) \<and>
   run f c (Inr d) slf =
     (if str_or_absent (creationTime d) then Inr (run_outcome f c d slf) else Inl TypeError)"
proof (intro conjI impI)
  assume "\<not> contains pid (prefix it)"
  then show "link_item pid tid cid ref it acc = Inr acc"
    by (simp add: link_item_def)
next
  show "run f c (Inr d) slf =
     (if str_or_absent (creationTime d) then Inr (run_outcome f c d slf) else Inl TypeError)"
    by (simp add: run_Inr_eq run_TypeError)
next
  assume "str_or_absent (creationTime d)"
  then obtain R where R: "run f c (Inr d) slf = Inr R"
    using run_total by blast
  let ?P = "map_of (prefix_id R)"
  have src: "the (?P (prefix x)) \<in> snd ` set (prefix_id R)" if "contains ?P (prefix x)" for x
  proof -
    from that obtain i where "?P (prefix x) = Some i" by (auto simp: contains_def)
    then show ?thesis by (auto dest: map_of_SomeD intro: rev_image_eqI)
  qed
  have 1: "prepare_relationships ?P (map_of (tag_id R)) (map_of (country_id R))
        (reference (self R)) (filter (\<lambda>it. contains ?P (prefix it)) (items R)) ([], []) =
        Inr (categorized_links R, country_links R)"
    by (simp add: prepare_relationships_of run_categorized [OF R] run_country [OF R]
          categorized_of_def country_of_def filter_conj_filter)
  have 2: "\<forall>l \<in> set (categorized_links R) \<union> set (country_links R). src_id l \<in> snd ` set (prefix_id R)"
    by (auto simp: run_categorized [OF R] run_country [OF R] categorized_of_def country_of_def
          categorized_link_def country_link_def src)
  from R 1 2 show "\<exists>R. run f c (Inr d) slf = Inr R \<and>
      prepare_relationships (map_of (prefix_id R)) (map_of (tag_id R)) (map_of (country_id R))
        (reference (self R))
        (filter (\<lambda>it. contains (map_of (prefix_id R)) (prefix it)) (items R)) ([], []) =
        Inr (categorized_links R, country_links R) \<and>
      (\<forall>l \<in> set (categorized_links R) \<union> set (country_links R). src_id l \<in> snd ` set (prefix_id R))"
    by blast
qed

theorem missing_prefix_no_links_witness:
  "str_or_absent (creationTime mixed_data) \<and>
   run Map.empty (fixed_client mixed_answer) (Inr mixed_data) mixed_self = Inr mixed_outcome \<and>
   global_record \<in> set (items mixed_outcome) \<and>
   \<not> contains (map_of (prefix_id mixed_outcome)) (prefix global_record) \<and>
   link_item (map_of (prefix_id mixed_outcome)) (map_of (tag_id mixed_outcome))
     (map_of (country_id mixed_outcome)) (reference (self mixed_outcome)) global_record
     (categorized_links mixed_outcome, country_links mixed_outcome) =
     Inr (categorized_links mixed_outcome, country_links mixed_outcome) \<and>
   prepare_relationships (map_of (prefix_id mixed_outcome)) (map_of (tag_id mixed_outcome))
     (map_of (country_id mixed_outcome)) (reference (self mixed_outcome))
     (filter (\<lambda>it. contains (map_of (prefix_id mixed_outcome)) (prefix it)) (items mixed_outcome))
     ([], []) = Inr (categorized_links mixed_outcome, country_links mixed_outcome) \<and>
   list_all (\<lambda>l. src_id l \<in> snd ` set (prefix_id mixed_outcome))
     (categorized_links mixed_outcome @ country_links mixed_outcome) \<and>
   length (categorized_links mixed_outcome @ country_links mixed_outcome) = 2"
proof -
  have n: "\<not> contains (map_of (prefix_id mixed_outcome)) (prefix global_record)"
    by (simp add: mixed_ids contains_def)
  note t = missing_prefix_no_links [where pid = "map_of (prefix_id mixed_outcome)"
      and it = global_record and tid = "map_of (tag_id mixed_outcome)"
      and cid = "map_of (country_id mixed_outcome)" and ref = "reference (self mixed_outcome)"
      and acc = "(categorized_links mixed_outcome, country_links mixed_outcome)"
      and f = Map.empty and c = "fixed_client mixed_answer" and d = mixed_data and slf = mixed_self]
  from t n have 1: "link_item (map_of (prefix_id mixed_outcome)) (map_of (tag_id mixed_outcome))
     (map_of (country_id mixed_outcome)) (reference (self mixed_outcome)) global_record
     (categorized_links mixed_outcome, country_links mixed_outcome) =
     Inr (categorized_links mixed_outcome, country_links mixed_outcome)"
    by blast
  from t str_or_absent_mixed
  obtain R where R: "run Map.empty (fixed_client mixed_answer) (Inr mixed_data) mixed_self = Inr R"
    and 2: "prepare_relationships (map_of (prefix_id R)) (map_of (tag_id R)) (map_of (country_id R))
        (reference (self R))
        (filter (\<lambda>it. contains (map_of (prefix_id R)) (prefix it)) (items R)) ([], []) =
        Inr (categorized_links R, country_links R)"
    and 3: "\<forall>l \<in> set (categorized_links R) \<union> set (country_links R). src_id l \<in> snd ` set (prefix_id R)"
    by blast
  from R mixed_run have "R = mixed_outcome" by simp
  with 2 3 have 2: "prepare_relationships (map_of (prefix_id mixed_outcome)) (map_of (tag_id mixed_outcome))
     (map_of (country_id mixed_outcome)) (reference (self mixed_outcome))
     (filter (\<lambda>it. contains (map_of (prefix_id mixed_outcome)) (prefix it)) (items mixed_outcome))
     ([], []) = Inr (categorized_links mixed_outcome, country_links mixed_outcome)"
    and 3: "list_all (\<lambda>l. src_id l \<in> snd ` set (prefix_id mixed_outcome))
     (categorized_links mixed_outcome @ country_links mixed_outcome)"
    by (simp_all add: list_all_iff)
  have 4: "global_record \<in> set (items mixed_outcome)"
    by (simp add: mixed_items)
  have 5: "length (categorized_links mixed_outcome @ country_links mixed_outcome) = 2"
    by (simp add: mixed_categorized mixed_country)
  from n 1 2 3 4 5 str_or_absent_mixed mixed_run show ?thesis by blast
qed

section \<open>Region to country\<close>

text \<open>
  C4. A scope that is a key of \<open>REGION_TO_COUNTRY\<close> resolves to the table's value: that
  value is the country code the second loop adds to the set of countries, and the
  destination of the COUNTRY link is the node the client gave for it. \<open>us-west1\<close> resolves
  to \<open>US\<close> and \<open>europe-west9\<close> to \<open>FR\<close>.
\<close>

theorem known_scope_country:
  "REGION_TO_COUNTRY ''us-west1'' = Some ''US'' \<and>
   REGION_TO_COUNTRY ''europe-west9'' = Some ''FR'' \<and>
   ((scope it, cc) \<in> set REGION_TO_COUNTRY_items \<longrightarrow>
      REGION_TO_COUNTRY (scope it) = Some cc \<and>
      (\<exists>u1. collect_item it (u, lg) = Inr (u1, lg) \<and> countries u1 = set_add cc (countries u)) \<and>
      (pid (prefix it) = Some p \<and> cid cc = Some k \<longrightarrow>
         (\<exists>cat. link_item pid tid cid ref it (cat0, cou0) =
            Inr (cat, cou0 @ [\<lparr>src_id = p, dst_id = k, props = [ref]\<rparr>]))) \<and>
      (run f c (Inr d) slf = Inr R \<and> it \<in> set (items R) \<longrightarrow> cc \<in> set (countries (uniq R))))"
proof (intro conjI impI)
  show "REGION_TO_COUNTRY ''us-west1'' = Some ''US''"
    by (simp add: REGION_TO_COUNTRY_def REGION_TO_COUNTRY_items_def)
  show "REGION_TO_COUNTRY ''europe-west9'' = Some ''FR''"
    by (simp add: REGION_TO_COUNTRY_def REGION_TO_COUNTRY_items_def)
next
  assume "(scope it, cc) \<in> set REGION_TO_COUNTRY_items"
  then show "REGION_TO_COUNTRY (scope it) = Some cc" by (rule region_lookup)
next
  assume "(scope it, cc) \<in> set REGION_TO_COUNTRY_items"
  then have "REGION_TO_COUNTRY (scope it) = Some cc" by (rule region_lookup)
  then show "\<exists>u1. collect_item it (u, lg) = Inr (u1, lg) \<and> countries u1 = set_add cc (countries u)"
    by (simp add: collect_item_eq)
next
  assume "(scope it, cc) \<in> set REGION_TO_COUNTRY_items" and "pid (prefix it) = Some p \<and> cid cc = Some k"
  moreover from this have "REGION_TO_COUNTRY (scope it) = Some cc" by (simp add: region_lookup)
  ultimately show "\<exists>cat. link_item pid tid cid ref it (cat0, cou0) =
            Inr (cat, cou0 @ [\<lparr>src_id = p, dst_id = k, props = [ref]\<rparr>])"
    by (simp add: link_item_eq country_known_def country_link_def)
next
  assume "(scope it, cc) \<in> set REGION_TO_COUNTRY_items"
    and R: "run f c (Inr d) slf = Inr R \<and> it \<in> set (items R)"
  from this(1) have "REGION_TO_COUNTRY (scope it) = Some cc" by (rule region_lookup)
  with R have "cc \<in> set (new_countries (items R))"
    by (auto simp: set_new_countries)
  then show "cc \<in> set (countries (uniq R))"
    by (simp add: run_uniq [OF conjunct1 [OF R]] uniq_of_def set_fold_set_add)
qed

theorem known_scope_country_witness:
  "(scope example_record, ''US'') \<in> set REGION_TO_COUNTRY_items \<and>
   REGION_TO_COUNTRY (scope example_record) = Some ''US'' \<and>
   (\<exists>u1. collect_item example_record (\<lparr>prefixes = [], services = [], countries = []\<rparr>, []) =
      Inr (u1, []) \<and> countries u1 = [''US'']) \<and>
   (\<exists>cat. link_item (map_of (prefix_id mixed_outcome)) (map_of (tag_id mixed_outcome))
      (map_of (country_id mixed_outcome)) (reference (self mixed_outcome)) example_record ([], []) =
      Inr (cat, [\<lparr>src_id = 0, dst_id = 3, props = [reference (self mixed_outcome)]\<rparr>])) \<and>
   example_record \<in> set (items mixed_outcome) \<and>
   ''US'' \<in> set (countries (uniq mixed_outcome))"
proof -
  have k: "(scope example_record, ''US'') \<in> set REGION_TO_COUNTRY_items"
    by (simp add: REGION_TO_COUNTRY_items_def)
  have i: "map_of (prefix_id mixed_outcome) (prefix example_record) = Some 0 \<and>
      map_of (country_id mixed_outcome) ''US'' = Some 3"
    by (simp add: mixed_ids)
  have m: "run Map.empty (fixed_client mixed_answer) (Inr mixed_data) mixed_self = Inr mixed_outcome \<and>
      example_record \<in> set (items mixed_outcome)"
    by (simp add: mixed_run mixed_items)
  note t = known_scope_country [of example_record "''US''"
      "\<lparr>prefixes = [], services = [], countries = []\<rparr>" "[]"
      "map_of (prefix_id mixed_outcome)" 0 "map_of (country_id mixed_outcome)" 3
      "map_of (tag_id mixed_outcome)" "reference (self mixed_outcome)" "[]" "[]"
      Map.empty "fixed_client mixed_answer" mixed_data mixed_self mixed_outcome]
  from t k i m show ?thesis
    by (simp add: set_add_def)
qed

text \<open>
  C5. The empty scope is not a key of the table. A record whose scope is not a key of the
  table adds no COUNTRY link and no country; the second loop logs a non-empty such scope at
  debug level. Once the creation-time step has returned (\<open>creationTime\<close> absent or a
  string) the run returns, its COUNTRY links are those of the records with a known scope, and
  every non-empty unknown scope among the records is in the log. A fetched document makes
  the run fail in one case only, a \<open>creationTime\<close> that is no string.
\<close>

theorem unknown_scope_no_country:
  "REGION_TO_COUNTRY [] = None \<and>
   (REGION_TO_COUNTRY (scope it) = None \<longrightarrow>
      (\<exists>cat. link_item pid tid cid ref it (cat0, cou0) = Inr (cat, cou0)) \<and>
      (\<exists>u1. collect_item it (u, lg) =
           Inr (u1, lg @ (if scope it \<noteq> [] then [(DEBUG, ''Unknown GCP region/scope: '' @ scope it)]
                          else [])) \<and>
         countries u1 = countries u)) \<and>
   (str_or_absent (creationTime d) \<longrightarrow>
    (\<exists>R. run f c (Inr d) slf = Inr R \<and>
      (\<exists>cat. prepare_relationships (map_of (prefix_id R)) (map_of (tag_id R)) (map_of (country_id R))
         (reference (self R))
         (filter (\<lambda>it. REGION_TO_COUNTRY (scope it) \<noteq> None) (items R)) ([], []) =
         Inr (cat, country_links R)) \<and>
      (\<forall>it \<in> set (items R). REGION_TO_COUNTRY (scope it) = None \<and> scope it \<noteq> [] \<longrightarrow>
         (DEBUG, ''Unknown GCP region/scope: '' @ scope it) \<in> set (logged R)))) \<and>
   run f c (Inr d) slf =
     (if str_or_absent (creationTime d) then Inr (run_outcome f c d slf) else Inl TypeError)"
proof (intro conjI impI)
  show "run f c (Inr d) slf =
     (if str_or_absent (creationTime d) then Inr (run_outcome f c d slf) else Inl TypeError)"
    by (simp add: run_Inr_eq run_TypeError)
next
  show "REGION_TO_COUNTRY [] = None" by (rule region_empty)
next
  assume "REGION_TO_COUNTRY (scope it) = None"
  then show "\<exists>cat. link_item pid tid cid ref it (cat0, cou0) = Inr (cat, cou0)"
    by (simp add: link_item_eq country_known_def)
next
  assume "REGION_TO_COUNTRY (scope it) = None"
  then show "\<exists>u1. collect_item it (u, lg) =
           Inr (u1, lg @ (if scope it \<noteq> [] then [(DEBUG, ''Unknown GCP region/scope: '' @ scope it)]
                          else [])) \<and>
         countries u1 = countries u"
    by (simp add: collect_item_eq unknown_scope_def)
next
  assume "str_or_absent (creationTime d)"
  then obtain R where R: "run f c (Inr d) slf = Inr R"
    using run_total by blast
  have 1: "prepare_relationships (map_of (prefix_id R)) (map_of (tag_id R)) (map_of (country_id R))
         (reference (self R))
         (filter (\<lambda>it. REGION_TO_COUNTRY (scope it) \<noteq> None) (items R)) ([], []) =
         Inr (categorized_of (map_of (prefix_id R)) (map_of (tag_id R)) (reference (self R))
                (filter (\<lambda>it. REGION_TO_COUNTRY (scope it) \<noteq> None) (items R)),
              country_links R)"
    by (simp only: prepare_relationships_of country_of_known run_country [OF R])
  have 2: "\<forall>it \<in> set (items R). REGION_TO_COUNTRY (scope it) = None \<and> scope it \<noteq> [] \<longrightarrow>
         (DEBUG, ''Unknown GCP region/scope: '' @ scope it) \<in> set (logged R)"
  proof (intro ballI impI)
    fix it
    assume "it \<in> set (items R)" and "REGION_TO_COUNTRY (scope it) = None \<and> scope it \<noteq> []"
    then have "unknown_scope it \<in> set (debug_of (items R))"
      by (simp add: debug_of_def)
    then show "(DEBUG, ''Unknown GCP region/scope: '' @ scope it) \<in> set (logged R)"
      by (simp add: run_logged [OF R] unknown_scope_def)
  qed
  from R 1 2 show "\<exists>R. run f c (Inr d) slf = Inr R \<and>
      (\<exists>cat. prepare_relationships (map_of (prefix_id R)) (map_of (tag_id R)) (map_of (country_id R))
         (reference (self R))
         (filter (\<lambda>it. REGION_TO_COUNTRY (scope it) \<noteq> None) (items R)) ([], []) =
         Inr (cat, country_links R)) \<and>
      (\<forall>it \<in> set (items R). REGION_TO_COUNTRY (scope it) = None \<and> scope it \<noteq> [] \<longrightarrow>
         (DEBUG, ''Unknown GCP region/scope: '' @ scope it) \<in> set (logged R))"
    by blast
qed

theorem unknown_scope_no_country_witness:
  "str_or_absent (creationTime mixed_data) \<and>
   run Map.empty (fixed_client mixed_answer) (Inr mixed_data) mixed_self = Inr mixed_outcome \<and>
   REGION_TO_COUNTRY (scope global_record) = None \<and> scope global_record \<noteq> [] \<and>
   global_record \<in> set (items mixed_outcome) \<and>
   (DEBUG, ''Unknown GCP region/scope: global'') \<in> set (logged mixed_outcome) \<and>
   (\<exists>cat. link_item (map_of (prefix_id mixed_outcome)) (map_of (tag_id mixed_outcome))
      (map_of (country_id mixed_outcome)) (reference (self mixed_outcome)) global_record
      (categorized_links mixed_outcome, country_links mixed_outcome) =
      Inr (cat, country_links mixed_outcome)) \<and>
   (\<exists>cat. prepare_relationships (map_of (prefix_id mixed_outcome)) (map_of (tag_id mixed_outcome))
      (map_of (country_id mixed_outcome)) (reference (self mixed_outcome))
      (filter (\<lambda>it. REGION_TO_COUNTRY (scope it) \<noteq> None) (items mixed_outcome)) ([], []) =
      Inr (cat, country_links mixed_outcome))"
proof -
  have n: "REGION_TO_COUNTRY (scope global_record) = None"
    by (simp add: region_global)
  have g: "global_record \<in> set (items mixed_outcome)"
    by (simp add: mixed_items)
  note t = unknown_scope_no_country [where it = global_record
      and pid = "map_of (prefix_id mixed_outcome)" and tid = "map_of (tag_id mixed_outcome)"
      and cid = "map_of (country_id mixed_outcome)" and ref = "reference (self mixed_outcome)"
      and ?cat0.0 = "categorized_links mixed_outcome" and ?cou0.0 = "country_links mixed_outcome"
      and u = "\<lparr>prefixes = [], services = [], countries = []\<rparr>" and lg = "[]"
      and f = Map.empty and c = "fixed_client mixed_answer" and d = mixed_data and slf = mixed_self]
  from t n have 1: "\<exists>cat. link_item (map_of (prefix_id mixed_outcome)) (map_of (tag_id mixed_outcome))
      (map_of (country_id mixed_outcome)) (reference (self mixed_outcome)) global_record
      (categorized_links mixed_outcome, country_links mixed_outcome) =
      Inr (cat, country_links mixed_outcome)"
    by blast
  from t str_or_absent_mixed
  obtain R cat where R: "run Map.empty (fixed_client mixed_answer) (Inr mixed_data) mixed_self = Inr R"
    and 2: "prepare_relationships (map_of (prefix_id R)) (map_of (tag_id R)) (map_of (country_id R))
         (reference (self R))
         (filter (\<lambda>it. REGION_TO_COUNTRY (scope it) \<noteq> None) (items R)) ([], []) =
         Inr (cat, country_links R)"
    and 3: "\<forall>it \<in> set (items R). REGION_TO_COUNTRY (scope it) = None \<and> scope it \<noteq> [] \<longrightarrow>
         (DEBUG, ''Unknown GCP region/scope: '' @ scope it) \<in> set (logged R)"
    by blast
  from R mixed_run have eq: "R = mixed_outcome" by simp
  from 3 g n have 4: "(DEBUG, ''Unknown GCP region/scope: global'') \<in> set (logged mixed_outcome)"
    unfolding eq by fastforce
  from 2 have 5: "\<exists>cat. prepare_relationships (map_of (prefix_id mixed_outcome)) (map_of (tag_id mixed_outcome))
      (map_of (country_id mixed_outcome)) (reference (self mixed_outcome))
      (filter (\<lambda>it. REGION_TO_COUNTRY (scope it) \<noteq> None) (items mixed_outcome)) ([], []) =
      Inr (cat, country_links mixed_outcome)"
    unfolding eq by blast
  from n g 1 4 5 str_or_absent_mixed mixed_run show ?thesis by simp
qed

section \<open>Creation time\<close>

text \<open>
  C6. When \<open>creationTime\<close> is a string on which \<open>fromisoformat\<close> raises \<open>ValueError\<close>, the
  run returns, a warning naming the value is logged, and the reference is the one the
  crawler started with: \<open>reference_time_modification\<close> is not set.
\<close>

theorem malformed_creationTime:
  assumes "creationTime d = Some (JString s)" and "fromisoformat s = None"
  shows "\<exists>R. run fromisoformat c (Inr d) slf = Inr R \<and>
     reference (self R) = reference slf \<and>
     (WARNING, ''Could not parse creationTime: '' @ s) \<in> set (logged R)"
proof -
  from assms(1) have "str_or_absent (creationTime d)"
    by (simp add: str_or_absent_def)
  then obtain R where R: "run fromisoformat c (Inr d) slf = Inr R"
    using run_total by blast
  from assms have tm: "creation fromisoformat d (reference slf) =
      (reference slf, [(WARNING, ''Could not parse creationTime: '' @ s)])"
    by (simp add: creation_def parse_creationTime_def)
  have "reference (self R) = reference slf"
    by (simp add: run_reference [OF R] tm)
  moreover have "(WARNING, ''Could not parse creationTime: '' @ s) \<in> set (logged R)"
    by (simp add: run_logged [OF R] tm)
  ultimately show ?thesis using R by blast
qed

theorem malformed_creationTime_witness:
  "creationTime mixed_data = Some (JString ''yesterday'') \<and>
   run Map.empty (fixed_client mixed_answer) (Inr mixed_data) mixed_self = Inr mixed_outcome \<and>
   reference (self mixed_outcome) = reference mixed_self \<and>
   (WARNING, ''Could not parse creationTime: yesterday'') \<in> set (logged mixed_outcome)"
proof -
  have c: "creationTime mixed_data = Some (JString ''yesterday'')"
    by (simp add: mixed_data_def)
  have p: "(Map.empty :: string \<rightharpoonup> datetime) ''yesterday'' = None"
    by simp
  from malformed_creationTime [OF c p, of "fixed_client mixed_answer" mixed_self]
  obtain R where R: "run Map.empty (fixed_client mixed_answer) (Inr mixed_data) mixed_self = Inr R"
    and 1: "reference (self R) = reference mixed_self"
    and 2: "(WARNING, ''Could not parse creationTime: '' @ ''yesterday'') \<in> set (logged R)"
    by blast
  from R mixed_run have "R = mixed_outcome" by simp
  with c 1 2 mixed_run show ?thesis by simp
qed

text \<open>
  As first stated (every \<open>creationTime\<close> that cannot be parsed as a timestamp), C6 fails on
  a value that is no string: for \<open>null\<close> the call raises \<open>TypeError\<close>, the handler for
  \<open>ValueError\<close> does not catch it, and the run ends with no outcome, whatever the parser
  and the client.
\<close>

theorem malformed_creationTime_counterexample:
  "creationTime null_data = Some JNull \<and>
   run Map.empty store_client (Inr null_data) example_self = Inl TypeError"
  by (simp add: null_data_def run_def parse_creationTime_def)

section \<open>Unique values\<close>

text \<open>
  C10. The prefixes, services and countries handed to \<open>batch_get_nodes_by_single_prop\<close>
  have no repetition; they are exactly the prefixes, the services and the resolved countries
  of the extracted records, and every country is a value of \<open>REGION_TO_COUNTRY\<close>. Each of
  the three collections is passed in one call.
\<close>

theorem unique_values_submitted:
  assumes "run f c (Inr d) slf = Inr R"
  shows "distinct (prefixes (uniq R)) \<and> distinct (services (uniq R)) \<and> distinct (countries (uniq R)) \<and>
    set (prefixes (uniq R)) = prefix ` set (items R) \<and>
    set (services (uniq R)) = service ` set (items R) \<and>
    set (countries (uniq R)) = {cc. \<exists>it \<in> set (items R). REGION_TO_COUNTRY (scope it) = Some cc} \<and>
    set (countries (uniq R)) \<subseteq> ran REGION_TO_COUNTRY \<and>
    prefix_id R =
      fst (batch_get_nodes_by_single_prop c ''GeoPrefix'' ''prefix'' (prefixes (uniq R)) False (iyp slf)) \<and>
    tag_id R =
      fst (batch_get_nodes_by_single_prop c ''Tag'' ''label'' (services (uniq R)) False
             (label_call c (uniq R) (iyp slf))) \<and>
    country_id R =
      fst (batch_get_nodes_by_single_prop c ''Country'' ''country_code'' (countries (uniq R)) False
             (snd (tag_call c (uniq R) (iyp slf))))"
proof -
  note u = run_uniq [OF assms]
  have d: "distinct (prefixes (uniq R))" "distinct (services (uniq R))" "distinct (countries (uniq R))"
    by (simp_all add: u uniq_of_def distinct_fold_set_add)
  have s: "set (prefixes (uniq R)) = prefix ` set (items R)"
    "set (services (uniq R)) = service ` set (items R)"
    by (simp_all add: u uniq_of_def set_fold_set_add)
  have c: "set (countries (uniq R)) = {cc. \<exists>it \<in> set (items R). REGION_TO_COUNTRY (scope it) = Some cc}"
    by (simp add: u uniq_of_def set_fold_set_add set_new_countries)
  have r: "set (countries (uniq R)) \<subseteq> ran REGION_TO_COUNTRY"
    unfolding c by (auto simp: ran_def)
  have p: "prefix_id R =
      fst (batch_get_nodes_by_single_prop c ''GeoPrefix'' ''prefix'' (prefixes (uniq R)) False (iyp slf))"
    by (simp add: run_prefix_id [OF assms] geoprefix_call_def)
  have t: "tag_id R =
      fst (batch_get_nodes_by_single_prop c ''Tag'' ''label'' (services (uniq R)) False
             (label_call c (uniq R) (iyp slf)))"
    by (simp add: run_tag_id [OF assms] tag_call_def)
  have k: "country_id R =
      fst (batch_get_nodes_by_single_prop c ''Country'' ''country_code'' (countries (uniq R)) False
             (snd (tag_call c (uniq R) (iyp slf))))"
    by (simp add: run_country_id [OF assms] country_call_def)
  from d s c r p t k show ?thesis by blast
qed

theorem unique_values_submitted_witness:
  "run Map.empty (fixed_client mixed_answer) (Inr mixed_data) mixed_self = Inr mixed_outcome \<and>
   map service (items mixed_outcome) = [''Google Cloud'', ''Google Cloud''] \<and>
   services (uniq mixed_outcome) = [''Google Cloud''] \<and>
   distinct (prefixes (uniq mixed_outcome)) \<and> distinct (services (uniq mixed_outcome)) \<and>
   distinct (countries (uniq mixed_outcome)) \<and>
   set (prefixes (uniq mixed_outcome)) = prefix ` set (items mixed_outcome) \<and>
   set (services (uniq mixed_outcome)) = service ` set (items mixed_outcome) \<and>
   set (countries (uniq mixed_outcome)) \<subseteq> ran REGION_TO_COUNTRY"
proof -
  from unique_values_submitted [OF mixed_run]
  have "distinct (prefixes (uniq mixed_outcome))" "distinct (services (uniq mixed_outcome))"
    "distinct (countries (uniq mixed_outcome))"
    "set (prefixes (uniq mixed_outcome)) = prefix ` set (items mixed_outcome)"
    "set (services (uniq mixed_outcome)) = service ` set (items mixed_outcome)"
    "set (countries (uniq mixed_outcome)) \<subseteq> ran REGION_TO_COUNTRY"
    by blast+
  moreover have "map service (items mixed_outcome) = [''Google Cloud'', ''Google Cloud'']"
    by (simp add: mixed_items)
  moreover have "services (uniq mixed_outcome) = [''Google Cloud'']"
    by (simp add: mixed_uniq)
  ultimately show ?thesis using mixed_run by blast
qed

section \<open>The run against the store\<close>

text \<open>
  C8. For the document with the single entry \<open>8.8.8.0/24\<close>, service \<open>Google Cloud\<close>, scope
  \<open>us-central1\<close>, a run on the empty store submits one prefix, one service and one country,
  and leaves exactly three nodes (the GeoPrefix node \<open>8.8.8.0/24\<close>, which also carries the
  label \<open>Prefix\<close>, the Tag node \<open>Google Cloud\<close> and the Country node \<open>US\<close>), one
  CATEGORIZED edge from the prefix to the tag and one COUNTRY edge from the prefix to the
  country, each with the reference as its properties. With any client the run submits the same three values, and one link of each type
  when the client's dictionaries hold the prefix, the service and the country.
\<close>

theorem end_to_end_example:
  "example_data =
     \<lparr>creationTime = None,
      json_prefixes = Some [[''ipv4Prefix'' \<mapsto> ''8.8.8.0/24'', ''service'' \<mapsto> ''Google Cloud'',
                             ''scope'' \<mapsto> ''us-central1'']]\<rparr> \<and>
   (\<exists>R. run f store_client (Inr example_data) \<lparr>reference = ref, iyp = empty_graph\<rparr> = Inr R \<and>
      items R = [\<lparr>prefix = ''8.8.8.0/24'', service = ''Google Cloud'', scope = ''us-central1'', af = 4\<rparr>] \<and>
      prefixes (uniq R) = [''8.8.8.0/24''] \<and>
      services (uniq R) = [''Google Cloud''] \<and>
      countries (uniq R) = [''US''] \<and>
      categorized_links R = [\<lparr>src_id = 0, dst_id = 1, props = [ref]\<rparr>] \<and>
      country_links R = [\<lparr>src_id = 0, dst_id = 2, props = [ref]\<rparr>] \<and>
      dom (node_ids (iyp (self R))) =
        {(''GeoPrefix'', ''prefix'', ''8.8.8.0/24''), (''Tag'', ''label'', ''Google Cloud''),
         (''Country'', ''country_code'', ''US'')} \<and>
      node_ids (iyp (self R)) (''GeoPrefix'', ''prefix'', ''8.8.8.0/24'') = Some 0 \<and>
      node_ids (iyp (self R)) (''Tag'', ''label'', ''Google Cloud'') = Some 1 \<and>
      node_ids (iyp (self R)) (''Country'', ''country_code'', ''US'') = Some 2 \<and>
      node_labels (iyp (self R)) 0 = {''GeoPrefix'', ''Prefix''} \<and>
      node_labels (iyp (self R)) 1 = {''Tag''} \<and>
      node_labels (iyp (self R)) 2 = {''Country''} \<and>
      dom (links (iyp (self R))) = {(''CATEGORIZED'', 0, 1), (''COUNTRY'', 0, 2)} \<and>
      links (iyp (self R)) (''CATEGORIZED'', 0, 1) = Some [ref] \<and>
      links (iyp (self R)) (''COUNTRY'', 0, 2) = Some [ref]) \<and>
   (\<exists>R. run f c (Inr example_data) \<lparr>reference = ref, iyp = s\<rparr> = Inr R \<and>
      items R = [\<lparr>prefix = ''8.8.8.0/24'', service = ''Google Cloud'', scope = ''us-central1'', af = 4\<rparr>] \<and>
      uniq R = \<lparr>prefixes = [''8.8.8.0/24''], services = [''Google Cloud''], countries = [''US'']\<rparr> \<and>
      categorized_links R =
        (if contains (map_of (prefix_id R)) ''8.8.8.0/24'' \<and> contains (map_of (tag_id R)) ''Google Cloud''
         then [\<lparr>src_id = the (map_of (prefix_id R) ''8.8.8.0/24''),
                dst_id = the (map_of (tag_id R) ''Google Cloud''), props = [ref]\<rparr>]
         else []) \<and>
      country_links R =
        (if contains (map_of (prefix_id R)) ''8.8.8.0/24'' \<and> contains (map_of (country_id R)) ''US''
         then [\<lparr>src_id = the (map_of (prefix_id R) ''8.8.8.0/24''),
                dst_id = the (map_of (country_id R) ''US''), props = [ref]\<rparr>]
         else []))"
proof (intro conjI)
  show "example_data =
     \<lparr>creationTime = None,
      json_prefixes = Some [[''ipv4Prefix'' \<mapsto> ''8.8.8.0/24'', ''service'' \<mapsto> ''Google Cloud'',
                             ''scope'' \<mapsto> ''us-central1'']]\<rparr>"
    by (simp add: example_data_def example_entry_def)
next
  show "\<exists>R. run f store_client (Inr example_data) \<lparr>reference = ref, iyp = empty_graph\<rparr> = Inr R \<and>
      items R = [\<lparr>prefix = ''8.8.8.0/24'', service = ''Google Cloud'', scope = ''us-central1'', af = 4\<rparr>] \<and>
      prefixes (uniq R) = [''8.8.8.0/24''] \<and>
      services (uniq R) = [''Google Cloud''] \<and>
      countries (uniq R) = [''US''] \<and>
      categorized_links R = [\<lparr>src_id = 0, dst_id = 1, props = [ref]\<rparr>] \<and>
      country_links R = [\<lparr>src_id = 0, dst_id = 2, props = [ref]\<rparr>] \<and>
      dom (node_ids (iyp (self R))) =
        {(''GeoPrefix'', ''prefix'', ''8.8.8.0/24''), (''Tag'', ''label'', ''Google Cloud''),
         (''Country'', ''country_code'', ''US'')} \<and>
      node_ids (iyp (self R)) (''GeoPrefix'', ''prefix'', ''8.8.8.0/24'') = Some 0 \<and>
      node_ids (iyp (self R)) (''Tag'', ''label'', ''Google Cloud'') = Some 1 \<and>
      node_ids (iyp (self R)) (''Country'', ''country_code'', ''US'') = Some 2 \<and>
      node_labels (iyp (self R)) 0 = {''GeoPrefix'', ''Prefix''} \<and>
      node_labels (iyp (self R)) 1 = {''Tag''} \<and>
      node_labels (iyp (self R)) 2 = {''Country''} \<and>
      dom (links (iyp (self R))) = {(''CATEGORIZED'', 0, 1), (''COUNTRY'', 0, 2)} \<and>
      links (iyp (self R)) (''CATEGORIZED'', 0, 1) = Some [ref] \<and>
      links (iyp (self R)) (''COUNTRY'', 0, 2) = Some [ref]"
    unfolding run_Inr_eq [OF str_or_absent_example] example_outcome
    by (simp add: example_graph_def example_record_def) auto
next
  from example_any_client [of f c ref s]
  show "\<exists>R. run f c (Inr example_data) \<lparr>reference = ref, iyp = s\<rparr> = Inr R \<and>
      items R = [\<lparr>prefix = ''8.8.8.0/24'', service = ''Google Cloud'', scope = ''us-central1'', af = 4\<rparr>] \<and>
      uniq R = \<lparr>prefixes = [''8.8.8.0/24''], services = [''Google Cloud''], countries = [''US'']\<rparr> \<and>
      categorized_links R =
        (if contains (map_of (prefix_id R)) ''8.8.8.0/24'' \<and> contains (map_of (tag_id R)) ''Google Cloud''
         then [\<lparr>src_id = the (map_of (prefix_id R) ''8.8.8.0/24''),
                dst_id = the (map_of (tag_id R) ''Google Cloud''), props = [ref]\<rparr>]
         else []) \<and>
      country_links R =
        (if contains (map_of (prefix_id R)) ''8.8.8.0/24'' \<and> contains (map_of (country_id R)) ''US''
         then [\<lparr>src_id = the (map_of (prefix_id R) ''8.8.8.0/24''),
                dst_id = the (map_of (country_id R) ''US''), props = [ref]\<rparr>]
         else [])"
    unfolding example_record_def by blast
qed

text \<open>
  C9. A second run on the same document, against the store the first run left, yields the
  same nodes and the same edges: the same node keys, ids, labels and next free id, and the
  same set of edges (type, source, destination), whatever the reference of the second run.
  An edge either keeps its properties or carries the reference of the second run; with the
  same reference the store is the same. The store the first run starts from is well formed,
  and so is the store it leaves.
\<close>

theorem rerun_same_graph:
  assumes wf: "wf_graph g"
    and r1: "run f store_client (Inr d) \<lparr>reference = ref1, iyp = g\<rparr> = Inr R1"
    and r2: "run f store_client (Inr d) \<lparr>reference = ref2, iyp = iyp (self R1)\<rparr> = Inr R2"
  shows "node_ids (iyp (self R2)) = node_ids (iyp (self R1)) \<and>
    node_labels (iyp (self R2)) = node_labels (iyp (self R1)) \<and>
    next_id (iyp (self R2)) = next_id (iyp (self R1)) \<and>
    dom (links (iyp (self R2))) = dom (links (iyp (self R1))) \<and>
    (\<forall>e \<in> dom (links (iyp (self R2))).
       links (iyp (self R2)) e = links (iyp (self R1)) e \<or>
       links (iyp (self R2)) e = Some [reference (self R2)]) \<and>
    (ref2 = ref1 \<longrightarrow> iyp (self R2) = iyp (self R1)) \<and>
    wf_graph (iyp (self R1))"
proof -
  let ?G1 = "iyp (self R1)" and ?G2 = "iyp (self R2)"
  let ?kv = "\<lambda>ty ls. map_of (rev (map (\<lambda>l. (edge_key ty l, props l)) ls))"
  let ?A1 = "?kv ''CATEGORIZED'' (categorized_links R1)" and ?B1 = "?kv ''COUNTRY'' (country_links R1)"
  let ?A2 = "?kv ''CATEGORIZED'' (categorized_links R2)" and ?B2 = "?kv ''COUNTRY'' (country_links R2)"
  have its: "items R2 = items R1"
    by (simp add: run_items [OF r1] run_items [OF r2])
  then have u: "uniq R2 = uniq R1"
    by (simp add: run_uniq [OF r1] run_uniq [OF r2])
  let ?u = "uniq R1"
  let ?g4 = "snd (country_call store_client ?u g)"
  have G1: "?G1 = store_add_links ''COUNTRY'' (country_links R1)
      (store_add_links ''CATEGORIZED'' (categorized_links R1) ?g4)"
    using run_iyp [OF r1] by simp
  have h: "node_ids ?G1 = node_ids ?g4" "node_labels ?G1 = node_labels ?g4"
    by (simp_all add: G1 store_add_links_props)
  note again = nodes_again [OF wf h]
  have ids: "prefix_id R2 = prefix_id R1" "tag_id R2 = tag_id R1" "country_id R2 = country_id R1"
    using again
    by (simp_all add: run_prefix_id [OF r1] run_prefix_id [OF r2] run_tag_id [OF r1] run_tag_id [OF r2]
          run_country_id [OF r1] run_country_id [OF r2] u)
  have G2: "?G2 = store_add_links ''COUNTRY'' (country_links R2)
      (store_add_links ''CATEGORIZED'' (categorized_links R2) ?G1)"
    using run_iyp [OF r2] again by (simp add: u)
  have n: "node_ids ?G2 = node_ids ?G1" "node_labels ?G2 = node_labels ?G1" "next_id ?G2 = next_id ?G1"
    by (simp_all add: G2 store_add_links_props)
  have l1: "links ?G1 = links ?g4 ++ ?A1 ++ ?B1"
    by (simp add: G1 store_add_links_props)
  have l2: "links ?G2 = links ?G1 ++ ?A2 ++ ?B2"
    by (simp add: G2 store_add_links_props)
  have k1: "dom ?A2 = dom ?A1"
    unfolding dom_upserted run_categorized [OF r1] run_categorized [OF r2] ids its
    by (rule edge_key_categorized)
  have k2: "dom ?B2 = dom ?B1"
    unfolding dom_upserted run_country [OF r1] run_country [OF r2] ids its
    by (rule edge_key_country)
  have e: "dom (links ?G2) = dom (links ?G1)"
    unfolding l2 dom_map_add k1 k2 unfolding l1 dom_map_add by blast
  have p: "links ?G2 e = links ?G1 e \<or> links ?G2 e = Some [reference (self R2)]" for e
  proof (cases "?B2 e")
    case (Some v)
    then have "v \<in> props ` set (country_links R2)" by (rule upserted_props)
    then have "v = [reference (self R2)]"
      using props_country unfolding run_country [OF r2] by blast
    with Some show ?thesis by (simp add: l2)
  next
    case None
    show ?thesis
    proof (cases "?A2 e")
      case (Some v)
      then have "v \<in> props ` set (categorized_links R2)" by (rule upserted_props)
      then have "v = [reference (self R2)]"
        using props_categorized unfolding run_categorized [OF r2] by blast
      with Some None show ?thesis by (simp add: l2 map_add_def)
    next
      case A: None
      with None show ?thesis by (simp add: l2 map_add_def)
    qed
  qed
  have same: "?G2 = ?G1" if "ref2 = ref1"
  proof -
    from that have "reference (self R2) = reference (self R1)"
      by (simp add: run_reference [OF r1] run_reference [OF r2])
    then have c: "categorized_links R2 = categorized_links R1" "country_links R2 = country_links R1"
      by (simp_all add: run_categorized [OF r1] run_categorized [OF r2]
            run_country [OF r1] run_country [OF r2] ids its)
    have "links ?G2 = links ?G1"
      unfolding l2 c unfolding l1 by (rule map_add_again)
    with n show ?thesis by simp
  qed
  have w: "wf_graph ?G1"
    using again by (simp add: G1 store_add_links_props)
  from n e p same w show ?thesis by blast
qed

theorem rerun_same_graph_witness:
  "wf_graph empty_graph \<and>
   run Map.empty store_client (Inr example_data)
     \<lparr>reference = Crawler_init Map.empty, iyp = empty_graph\<rparr> = Inr example_result \<and>
   run Map.empty store_client (Inr example_data)
     \<lparr>reference = later_reference, iyp = iyp (self example_result)\<rparr> = Inr later_result \<and>
   later_reference \<noteq> Crawler_init Map.empty \<and>
   node_ids (iyp (self later_result)) = node_ids (example_graph (Crawler_init Map.empty)) \<and>
   dom (links (iyp (self later_result))) = {(''CATEGORIZED'', 0, 1), (''COUNTRY'', 0, 2)} \<and>
   dom (links (iyp (self example_result))) = {(''CATEGORIZED'', 0, 1), (''COUNTRY'', 0, 2)} \<and>
   run Map.empty store_client (Inr example_data)
     \<lparr>reference = Crawler_init Map.empty, iyp = iyp (self example_result)\<rparr> = Inr rerun_result \<and>
   iyp (self example_result) = example_graph (Crawler_init Map.empty) \<and>
   iyp (self rerun_result) = example_graph (Crawler_init Map.empty)"
proof -
  have wf: "wf_graph empty_graph"
    by (simp add: wf_graph_def empty_graph_def)
  have r1: "run Map.empty store_client (Inr example_data)
      \<lparr>reference = Crawler_init Map.empty, iyp = empty_graph\<rparr> = Inr example_result"
    using example_run by (simp add: example_self_def)
  have r2: "run Map.empty store_client (Inr example_data)
      \<lparr>reference = Crawler_init Map.empty, iyp = iyp (self example_result)\<rparr> = Inr rerun_result"
    by (simp add: run_Inr_eq str_or_absent_example rerun_result_def)
  have r3: "run Map.empty store_client (Inr example_data)
      \<lparr>reference = later_reference, iyp = iyp (self example_result)\<rparr> = Inr later_result"
    by (simp add: run_Inr_eq str_or_absent_example later_result_def)
  have ne: "later_reference \<noteq> Crawler_init Map.empty"
  proof
    assume "later_reference = Crawler_init Map.empty"
    then have "later_reference ''reference_time_fetch'' = Crawler_init Map.empty ''reference_time_fetch''"
      by simp
    then show False
      by (simp add: later_reference_def Crawler_init_def)
  qed
  from rerun_same_graph [OF wf r1 r2]
  have a: "iyp (self rerun_result) = iyp (self example_result)"
    by blast
  from rerun_same_graph [OF wf r1 r3]
  have b: "node_ids (iyp (self later_result)) = node_ids (iyp (self example_result))"
    "dom (links (iyp (self later_result))) = dom (links (iyp (self example_result)))"
    by blast+
  have g: "iyp (self example_result) = example_graph (Crawler_init Map.empty)"
    by (rule example_result_fields(7))
  have d: "dom (links (iyp (self example_result))) = {(''CATEGORIZED'', 0, 1), (''COUNTRY'', 0, 2)}"
    unfolding g by (auto simp: example_graph_def)
  from wf r1 r2 r3 ne a b g d show ?thesis by simp
qed

end
